theory Spec2Isabelle
  imports Complex_Main
begin

section \<open>Errors and the attention memory cell\<close>

text \<open>
  Exceptions of the Python source are values: a function that can raise returns
  \<open>error + 'a\<close>, with \<open>Inl\<close> for the exception.
\<close>

datatype error =
    AttributeError
  | IndexError
  | TypeError
  | ValueError
  | ZeroDivisionError
  | RuntimeError
  | AssertionError
  | External string

definition ebind :: "error + 'a \<Rightarrow> ('a \<Rightarrow> error + 'b) \<Rightarrow> error + 'b" where
  "ebind m f = (case m of Inl e \<Rightarrow> Inl e | Inr x \<Rightarrow> f x)"

text \<open>
  Tensors that several objects can hold at once (the query and key passed to
  \<open>get_qk\<close>, which the processor caches and later overwrites in place) live in a store
  and are named by their address.
\<close>

type_synonym addr = nat

text \<open>
  The fields \<open>init_attention_func\<close> attaches to every \<open>AttnProcessor2_0\<close>:
  \<open>last_attn_slice\<close> is \<open>None\<close> or the list \<open>[query, key]\<close> of two tensor objects;
  \<open>LAMBDA\<close>, \<open>num_frames\<close> and \<open>bs\<close> can each be Python's \<open>None\<close>
  (\<open>init_attention_params\<close> defaults \<open>lambda_\<close> and \<open>bs\<close> to it, and
  \<open>init_attention_func\<close> sets \<open>num_frames = None\<close>).
\<close>

record cell =
  last_attn_slice :: "(addr \<times> addr) option"
  use_last_attn_slice :: bool
  save_last_attn_slice :: bool
  LAMBDA :: "real option"
  num_frames :: "nat option"
  bs :: "nat option"

text \<open>
  One entry of \<open>unet.named_modules()\<close>: the dotted name, \<open>type(module).__name__\<close>,
  and the module's \<open>processor\<close> attribute (\<open>None\<close> when the module has none, so that
  reading it raises \<open>AttributeError\<close>).
\<close>

record named_module =
  mod_name :: string
  class_name :: string
  processor :: "cell option"

type_synonym unet_modules = "named_module list"

definition TAU_2 :: nat where
  "TAU_2 = 15"

definition TAU_1 :: nat where
  "TAU_1 = 10"

text \<open>Python's \<open>s in name\<close> on strings: \<open>s\<close> occurs in \<open>name\<close> as a contiguous run.\<close>

fun str_in :: "string \<Rightarrow> string \<Rightarrow> bool" where
  "str_in s [] = (s = [])"
| "str_in s (c # cs) = (take (length s) (c # cs) = s \<or> str_in s cs)"

text \<open>A \<open>for name, module in unet.named_modules()\<close> loop whose body updates the module.\<close>

fun for_modules :: "(named_module \<Rightarrow> error + named_module) \<Rightarrow> unet_modules \<Rightarrow> error + unet_modules" where
  "for_modules body [] = Inr []"
| "for_modules body (m # ms) =
     ebind (body m) (\<lambda>m'. ebind (for_modules body ms) (\<lambda>ms'. Inr (m' # ms')))"

text \<open>\<open>module.processor.<field> = v\<close>: the processor is read first.\<close>

definition set_processor_field :: "(cell \<Rightarrow> cell) \<Rightarrow> named_module \<Rightarrow> error + named_module" where
  "set_processor_field upd m =
     (case processor m of
        None \<Rightarrow> Inl AttributeError
      | Some p \<Rightarrow> Inr (m\<lparr>processor := Some (upd p)\<rparr>))"

definition init_attention_params :: "unet_modules \<Rightarrow> nat option \<Rightarrow> real option \<Rightarrow> nat option \<Rightarrow> error + unet_modules" where
  "init_attention_params unet nf lambda b =
     for_modules (\<lambda>m.
       if class_name m = ''Attention''
       then set_processor_field (\<lambda>p. p\<lparr>LAMBDA := lambda, bs := b, num_frames := nf\<rparr>) m
       else Inr m) unet"

text \<open>
  \<open>module.set_processor(AttnProcessor2_0())\<close> installs a new processor object on the
  module, whatever it had; the six assignments that follow give it its fields.
\<close>

definition fresh_cell :: cell where
  "fresh_cell = \<lparr>last_attn_slice = None, use_last_attn_slice = False,
     save_last_attn_slice = False, LAMBDA = Some 0, num_frames = None, bs = Some 0\<rparr>"

definition init_attention_func :: "unet_modules \<Rightarrow> unet_modules" where
  "init_attention_func unet =
     map (\<lambda>m. if class_name m = ''Attention'' then m\<lparr>processor := Some fresh_cell\<rparr> else m) unet"

text \<open>
  The test both toggles apply: \<open>module_name == "Attention" and "attn1" in name\<close>. In
  the network's transformer blocks \<open>attn1\<close> is the self-attention layer and
  \<open>attn2\<close> the cross-attention layer.
\<close>

definition use_last_self_attention :: "unet_modules \<Rightarrow> bool \<Rightarrow> error + unet_modules" where
  "use_last_self_attention unet use =
     for_modules (\<lambda>m.
       if class_name m = ''Attention'' \<and> str_in ''attn1'' (mod_name m)
       then set_processor_field (\<lambda>p. p\<lparr>use_last_attn_slice := use\<rparr>) m
       else Inr m) unet"

definition save_last_self_attention :: "unet_modules \<Rightarrow> bool \<Rightarrow> error + unet_modules" where
  "save_last_self_attention unet save =
     for_modules (\<lambda>m.
       if class_name m = ''Attention'' \<and> str_in ''attn1'' (mod_name m)
       then set_processor_field (\<lambda>p. p\<lparr>save_last_attn_slice := save\<rparr>) m
       else Inr m) unet"

text \<open>The modules the two toggles select.\<close>

definition is_attn1 :: "named_module \<Rightarrow> bool" where
  "is_attn1 m = (class_name m = ''Attention'' \<and> str_in ''attn1'' (mod_name m))"

section \<open>Tensors\<close>

text \<open>
  A tensor is its shape and its elements in row-major order, as a contiguous
  \<open>torch.Tensor\<close> stores them. Elements are real numbers: the rounding of the
  floating-point types is not modelled. An operation that PyTorch refuses (an index out
  of range, shapes that do not broadcast) returns the exception.
\<close>

record 'a tensor =
  shape :: "nat list"
  vals :: "'a list"

definition wf :: "'a tensor \<Rightarrow> bool" where
  "wf t = (length (vals t) = prod_list (shape t))"

text \<open>Row-major position of a multi-index, and the multi-index of a position.\<close>

fun flat :: "nat list \<Rightarrow> nat list \<Rightarrow> nat" where
  "flat (n # ns) (i # is) = i * prod_list ns + flat ns is"
| "flat ns is = 0"

fun unflat :: "nat list \<Rightarrow> nat \<Rightarrow> nat list" where
  "unflat [] k = []"
| "unflat (n # ns) k = (k div prod_list ns) # unflat ns (k mod prod_list ns)"


definition tget :: "'a tensor \<Rightarrow> nat list \<Rightarrow> 'a" where
  "tget t idx = vals t ! flat (shape t) idx"

text \<open>The tensor of a given shape whose element at each multi-index is \<open>f\<close> of it.\<close>

definition tab :: "nat list \<Rightarrow> (nat list \<Rightarrow> 'a) \<Rightarrow> 'a tensor" where
  "tab shp f = \<lparr>shape = shp, vals = map (\<lambda>k. f (unflat shp k)) [0..<prod_list shp]\<rparr>"

definition scalar :: "'a \<Rightarrow> 'a tensor" where
  "scalar x = \<lparr>shape = [], vals = [x]\<rparr>"

definition zeros :: "nat list \<Rightarrow> real tensor" where
  "zeros shp = tab shp (\<lambda>_. 0)"

definition clone :: "'a tensor \<Rightarrow> 'a tensor" where
  "clone t = t"

text \<open>\<open>t.shape[d]\<close>, \<open>t.size(-d)\<close> and \<open>len(t)\<close>.\<close>

definition shape_at :: "'a tensor \<Rightarrow> nat \<Rightarrow> error + nat" where
  "shape_at t d = (if d < length (shape t) then Inr (shape t ! d) else Inl IndexError)"

definition size_neg :: "'a tensor \<Rightarrow> nat \<Rightarrow> error + nat" where
  "size_neg t d =
     (if 1 \<le> d \<and> d \<le> length (shape t) then Inr (shape t ! (length (shape t) - d))
      else Inl IndexError)"

definition len_tensor :: "'a tensor \<Rightarrow> error + nat" where
  "len_tensor t = (case shape t of [] \<Rightarrow> Inl TypeError | n # _ \<Rightarrow> Inr n)"

subsection \<open>Basic indexing\<close>

text \<open>
  One subscript per leading dimension: an integer \<open>i\<close> (the dimension is dropped) or a
  slice \<open>a:b\<close> with either bound optional, clipped to the dimension as Python clips it.
  Dimensions without a subscript are taken whole. The source uses no negative subscript
  and no step.
\<close>

datatype ix = Int_ix nat | Slice "nat option" "nat option"

definition slice_start :: "nat option \<Rightarrow> nat \<Rightarrow> nat" where
  "slice_start a n = (case a of None \<Rightarrow> 0 | Some s \<Rightarrow> min s n)"

definition slice_stop :: "nat option \<Rightarrow> nat \<Rightarrow> nat" where
  "slice_stop b n = (case b of None \<Rightarrow> n | Some e \<Rightarrow> min e n)"

text \<open>The shape of \<open>t[ixs]\<close>.\<close>

fun index_shape :: "ix list \<Rightarrow> nat list \<Rightarrow> error + nat list" where
  "index_shape [] shp = Inr shp"
| "index_shape (x # xs) [] = Inl IndexError"
| "index_shape (Int_ix i # xs) (n # ns) = (if i < n then index_shape xs ns else Inl IndexError)"
| "index_shape (Slice a b # xs) (n # ns) =
     ebind (index_shape xs ns) (\<lambda>r. Inr ((slice_stop b n - slice_start a n) # r))"

text \<open>Where in \<open>t\<close> the element of \<open>t[ixs]\<close> at \<open>idx\<close> comes from.\<close>

fun index_src :: "ix list \<Rightarrow> nat list \<Rightarrow> nat list \<Rightarrow> nat list" where
  "index_src (Int_ix i # xs) (n # ns) idx = i # index_src xs ns idx"
| "index_src (Slice a b # xs) (n # ns) (j # idx) = (slice_start a n + j) # index_src xs ns idx"
| "index_src xs shp idx = idx"

text \<open>Where in \<open>t[ixs]\<close> the element of \<open>t\<close> at \<open>idx\<close> lies, if it lies there.\<close>

fun index_dst :: "ix list \<Rightarrow> nat list \<Rightarrow> nat list \<Rightarrow> nat list option" where
  "index_dst (Int_ix i # xs) (n # ns) (j # idx) = (if j = i then index_dst xs ns idx else None)"
| "index_dst (Slice a b # xs) (n # ns) (j # idx) =
     (if slice_start a n \<le> j \<and> j < slice_stop b n
      then map_option ((#) (j - slice_start a n)) (index_dst xs ns idx) else None)"
| "index_dst xs shp idx = Some idx"

subsection \<open>Broadcasting\<close>

text \<open>
  Shapes are aligned at their last dimension; two sizes agree when they are equal or one
  of them is 1. \<open>bc_dims\<close> works on the reversed shapes.
\<close>

fun bc_dims :: "nat list \<Rightarrow> nat list \<Rightarrow> error + nat list" where
  "bc_dims [] es = Inr es"
| "bc_dims ds [] = Inr ds"
| "bc_dims (d # ds) (e # es) =
     (if d = e \<or> e = 1 then ebind (bc_dims ds es) (\<lambda>r. Inr (d # r))
      else if d = 1 then ebind (bc_dims ds es) (\<lambda>r. Inr (e # r))
      else Inl RuntimeError)"

definition bc_shape :: "nat list \<Rightarrow> nat list \<Rightarrow> error + nat list" where
  "bc_shape a b = ebind (bc_dims (rev a) (rev b)) (\<lambda>r. Inr (rev r))"

text \<open>The index into a tensor of shape \<open>src\<close> that index \<open>idx\<close> of the broadcast reads.\<close>

definition bc_index :: "nat list \<Rightarrow> nat list \<Rightarrow> nat list" where
  "bc_index src idx =
     map2 (\<lambda>d j. if d = 1 then 0 else j) src
       (replicate (length src - length idx) 0 @ drop (length idx - length src) idx)"

definition expandable :: "nat list \<Rightarrow> nat list \<Rightarrow> bool" where
  "expandable src dst =
     (length src \<le> length dst \<and>
      list_all2 (\<lambda>d e. d = e \<or> d = 1) src (drop (length dst - length src) dst))"

text \<open>\<open>t[ixs]\<close>, read.\<close>

definition getitem :: "'a tensor \<Rightarrow> ix list \<Rightarrow> error + 'a tensor" where
  "getitem t ixs =
     ebind (index_shape ixs (shape t))
       (\<lambda>rs. Inr (tab rs (\<lambda>idx. tget t (index_src ixs (shape t) idx))))"

text \<open>
  \<open>t[ixs] = rhs\<close>: the tensor \<open>t\<close> holds afterwards. PyTorch drops the leading
  dimensions of size 1 of \<open>rhs\<close> and expands the rest to the shape of \<open>t[ixs]\<close>.
\<close>

definition setitem :: "'a tensor \<Rightarrow> ix list \<Rightarrow> 'a tensor \<Rightarrow> error + 'a tensor" where
  "setitem t ixs rhs =
     ebind (index_shape ixs (shape t))
       (\<lambda>rs. if expandable (dropWhile (\<lambda>d. d = 1) (shape rhs)) rs
             then Inr (tab (shape t) (\<lambda>idx.
                    case index_dst ixs (shape t) idx of
                      None \<Rightarrow> tget t idx
                    | Some r \<Rightarrow> tget rhs (bc_index (shape rhs) r)))
             else Inl RuntimeError)"

text \<open>\<open>a op b\<close> elementwise, and the in-place \<open>a op= b\<close> (whose result keeps the shape of \<open>a\<close>).\<close>

definition binop :: "('a \<Rightarrow> 'a \<Rightarrow> 'a) \<Rightarrow> 'a tensor \<Rightarrow> 'a tensor \<Rightarrow> error + 'a tensor" where
  "binop f a b =
     ebind (bc_shape (shape a) (shape b))
       (\<lambda>rs. Inr (tab rs (\<lambda>idx. f (tget a (bc_index (shape a) idx)) (tget b (bc_index (shape b) idx)))))"

definition binop_inplace :: "('a \<Rightarrow> 'a \<Rightarrow> 'a) \<Rightarrow> 'a tensor \<Rightarrow> 'a tensor \<Rightarrow> error + 'a tensor" where
  "binop_inplace f a b =
     ebind (bc_shape (shape a) (shape b))
       (\<lambda>rs. if rs = shape a then binop f a b else Inl RuntimeError)"

subsection \<open>Shape changes\<close>

text \<open>
  \<open>t.reshape(spec)\<close> and \<open>t.view(spec)\<close>, with \<open>None\<close> for a \<open>-1\<close> in \<open>spec\<close>: the
  elements keep their row-major order.
\<close>

definition infer_shape :: "nat option list \<Rightarrow> nat \<Rightarrow> error + nat list" where
  "infer_shape spec numel =
     (let known = prod_list (map (\<lambda>d. case d of None \<Rightarrow> 1 | Some n \<Rightarrow> n) spec);
          holes = length (filter (\<lambda>d. d = None) spec)
      in if holes = 0
         then (if known = numel then Inr (map (\<lambda>d. case d of None \<Rightarrow> 0 | Some n \<Rightarrow> n) spec)
               else Inl RuntimeError)
         else if holes = 1 \<and> known \<noteq> 0 \<and> numel mod known = 0
         then Inr (map (\<lambda>d. case d of None \<Rightarrow> numel div known | Some n \<Rightarrow> n) spec)
         else Inl RuntimeError)"

definition reshape :: "'a tensor \<Rightarrow> nat option list \<Rightarrow> error + 'a tensor" where
  "reshape t spec =
     ebind (infer_shape spec (prod_list (shape t))) (\<lambda>s. Inr (t\<lparr>shape := s\<rparr>))"

fun index_of :: "nat list \<Rightarrow> nat \<Rightarrow> nat" where
  "index_of [] d = 0"
| "index_of (p # ps) d = (if p = d then 0 else Suc (index_of ps d))"

text \<open>\<open>t.permute(perm)\<close>: dimension \<open>k\<close> of the result is dimension \<open>perm[k]\<close> of \<open>t\<close>.\<close>

definition permute :: "'a tensor \<Rightarrow> nat list \<Rightarrow> error + 'a tensor" where
  "permute t perm =
     (let s = shape t; r = length s in
      if sort perm = [0..<r]
      then Inr (tab (map (\<lambda>d. s ! d) perm)
                  (\<lambda>idx. tget t (map (\<lambda>d. idx ! index_of perm d) [0..<r])))
      else Inl RuntimeError)"

definition transpose :: "'a tensor \<Rightarrow> nat \<Rightarrow> nat \<Rightarrow> error + 'a tensor" where
  "transpose t d1 d2 =
     (let r = length (shape t) in
      if d1 < r \<and> d2 < r then permute t (([0..<r])[d1 := d2, d2 := d1]) else Inl IndexError)"

text \<open>\<open>t.transpose(-2, -1)\<close>.\<close>

definition transpose_last2 :: "'a tensor \<Rightarrow> error + 'a tensor" where
  "transpose_last2 t =
     (let r = length (shape t) in
      if r < 2 then Inl IndexError else transpose t (r - 2) (r - 1))"

text \<open>\<open>t[None, :]\<close>: a new first dimension of size 1; the slice needs a dimension to take.\<close>

definition unsqueeze0 :: "'a tensor \<Rightarrow> error + 'a tensor" where
  "unsqueeze0 t = (if shape t = [] then Inl IndexError else Inr (t\<lparr>shape := 1 # shape t\<rparr>))"

text \<open>\<open>t.repeat(reps)\<close>: \<open>reps\<close> has at least as many entries as \<open>t\<close> has dimensions.\<close>

definition repeat_tensor :: "'a tensor \<Rightarrow> nat list \<Rightarrow> error + 'a tensor" where
  "repeat_tensor t reps =
     (if length reps < length (shape t) then Inl RuntimeError
      else let s = replicate (length reps - length (shape t)) 1 @ shape t
           in Inr (tab (map2 (*) reps s) (\<lambda>idx. tget (t\<lparr>shape := s\<rparr>) (map2 (\<lambda>i n. i mod n) idx s))))"

text \<open>\<open>torch.cat([a, b], dim=d)\<close>: the shapes agree except at dimension \<open>d\<close>.\<close>

definition cat2 :: "'a tensor \<Rightarrow> 'a tensor \<Rightarrow> nat \<Rightarrow> error + 'a tensor" where
  "cat2 a b d =
     (let sa = shape a; sb = shape b in
      if d < length sa \<and> length sb = length sa \<and> sa[d := 0] = sb[d := 0]
      then Inr (tab (sa[d := sa ! d + sb ! d])
             (\<lambda>idx. if idx ! d < sa ! d then tget a idx else tget b (idx[d := idx ! d - sa ! d])))
      else if d < length sa then Inl RuntimeError else Inl IndexError)"

subsection \<open>Matrix product and softmax\<close>

text \<open>
  \<open>a @ b\<close>: a one-dimensional operand is a row (on the left) or a column (on the right)
  for the product and loses that dimension afterwards; the leading dimensions broadcast.
\<close>

definition matmul :: "real tensor \<Rightarrow> real tensor \<Rightarrow> error + real tensor" where
  "matmul a b =
     (let ra = length (shape a); rb = length (shape b) in
      if ra = 0 \<or> rb = 0 then Inl RuntimeError
      else
        let sa = (if ra = 1 then 1 # shape a else shape a);
            sb = (if rb = 1 then shape b @ [1] else shape b);
            ba = take (length sa - 2) sa;
            bb = take (length sb - 2) sb;
            n = sa ! (length sa - 2);
            m = sa ! (length sa - 1);
            p = sb ! (length sb - 1)
        in if m \<noteq> sb ! (length sb - 2) then Inl RuntimeError
           else ebind (bc_shape ba bb) (\<lambda>bs.
             Inr ((tab (bs @ [n, p]) (\<lambda>idx.
                    let bi = take (length bs) idx; i = idx ! length bs; j = idx ! Suc (length bs) in
                    (\<Sum>k\<leftarrow>[0..<m]. tget (a\<lparr>shape := sa\<rparr>) (bc_index ba bi @ [i, k]) *
                                   tget (b\<lparr>shape := sb\<rparr>) (bc_index bb bi @ [k, j]))))
                  \<lparr>shape := bs @ (if ra = 1 then [] else [n]) @ (if rb = 1 then [] else [p])\<rparr>)))"

text \<open>\<open>torch.softmax(t, dim=-1)\<close>.\<close>

definition softmax_last :: "real tensor \<Rightarrow> real tensor" where
  "softmax_last t =
     (let s = shape t in
      if s = [] then tab [] (\<lambda>_. 1)
      else tab s (\<lambda>idx. exp (tget t idx) / (\<Sum>j\<leftarrow>[0..<last s]. exp (tget t (butlast idx @ [j])))))"

section \<open>The attention arithmetic\<close>

text \<open>
  \<open>scaled_dot_product_attention\<close> with the arguments its two call sites fix:
  \<open>is_causal=False\<close>, \<open>enable_gqa=False\<close> (the default) and \<open>dropout_p=0.0\<close>, for
  which \<open>torch.dropout\<close> returns its input. The mask, when there is one, is a float
  mask added to the logits; the Boolean-mask branch is not modelled.

  \<open>attention_logits\<close> is the \<open>if k1 is not None: ... else: ...\<close> statement of the
  function: the similarities times the scale factor, before the bias and the softmax.
  With a secondary key \<open>k1\<close> it runs
  \<^verbatim>\<open>attn_weight[:,:len(d_l),0] = attn_k1[:,:len(d_l),0] * d_l\<close>
  whose right-hand side is evaluated first.
\<close>

definition attention_logits ::
  "real tensor \<Rightarrow> real tensor \<Rightarrow> real \<Rightarrow> real tensor option \<Rightarrow> real tensor option \<Rightarrow> error + real tensor" where
  "attention_logits query key scale_factor k1 d_l =
     (case k1 of
        Some k1t \<Rightarrow>
          ebind (transpose_last2 k1t) (\<lambda>k1T.
          ebind (matmul query k1T) (\<lambda>attn_k1.
          ebind (transpose_last2 key) (\<lambda>keyT.
          ebind (matmul query keyT) (\<lambda>attn_weight.
          case d_l of
            None \<Rightarrow> Inl TypeError
          | Some dl \<Rightarrow>
              ebind (len_tensor dl) (\<lambda>len_dl.
              ebind (getitem attn_k1 [Slice None None, Slice None (Some len_dl), Int_ix 0]) (\<lambda>part.
              ebind (binop (*) part dl) (\<lambda>rhs.
              ebind (setitem attn_weight [Slice None None, Slice None (Some len_dl), Int_ix 0] rhs) (\<lambda>attn_weight.
              binop (*) attn_weight (scalar scale_factor)))))))))
      | None \<Rightarrow>
          ebind (transpose_last2 key) (\<lambda>keyT.
          ebind (matmul query keyT) (\<lambda>qk.
          binop (*) qk (scalar scale_factor))))"

definition scaled_dot_product_attention ::
  "real tensor \<Rightarrow> real tensor \<Rightarrow> real tensor \<Rightarrow> real tensor option \<Rightarrow> real option \<Rightarrow>
   real tensor option \<Rightarrow> real tensor option \<Rightarrow> error + real tensor" where
  "scaled_dot_product_attention query key val attn_mask scale k1 d_l =
     ebind (size_neg query 2) (\<lambda>L.
     ebind (size_neg key 2) (\<lambda>S.
     ebind (case scale of
              Some s \<Rightarrow> Inr s
            | None \<Rightarrow> ebind (size_neg query 1) (\<lambda>E.
                if E = 0 then Inl ZeroDivisionError else Inr (1 / sqrt (real E)))) (\<lambda>scale_factor.
     ebind (case attn_mask of
              None \<Rightarrow> Inr (zeros [L, S])
            | Some m \<Rightarrow> binop_inplace (+) (zeros [L, S]) m) (\<lambda>attn_bias.
     ebind (attention_logits query key scale_factor k1 d_l) (\<lambda>attn_weight.
     ebind (binop_inplace (+) attn_weight attn_bias) (\<lambda>attn_weight.
     matmul (softmax_last attn_weight) val))))))"

text \<open>
  What \<open>AttnProcessor2_0.__call__\<close> does with the four values \<open>get_qk\<close> returns, up
  to the call of the attention arithmetic: each of query, key and value (and the
  secondary key, when there is a blend vector) is split into heads by
  \<open>t.view(batch_size, -1, attn.heads, head_dim).transpose(1, 2)\<close>, which makes it a
  tensor of four dimensions \<open>[batch, heads, sequence, head_dim]\<close>.
\<close>

definition split_heads :: "real tensor \<Rightarrow> nat \<Rightarrow> nat \<Rightarrow> nat \<Rightarrow> error + real tensor" where
  "split_heads t batch_size heads head_dim =
     ebind (reshape t [Some batch_size, None, Some heads, Some head_dim]) (\<lambda>v. transpose v 1 2)"

definition attend ::
  "nat \<Rightarrow> nat \<Rightarrow> nat \<Rightarrow> real tensor \<Rightarrow> real tensor \<Rightarrow> real tensor \<Rightarrow> real tensor option \<Rightarrow>
   real tensor option \<Rightarrow> real tensor option \<Rightarrow> error + real tensor" where
  "attend batch_size heads head_dim query key val d_l k1 attention_mask =
     ebind (split_heads query batch_size heads head_dim) (\<lambda>query.
     ebind (split_heads key batch_size heads head_dim) (\<lambda>key.
     ebind (split_heads val batch_size heads head_dim) (\<lambda>val.
     case d_l of
       Some dl \<Rightarrow>
         (case k1 of
            None \<Rightarrow> Inl AttributeError
          | Some k1t \<Rightarrow>
              ebind (split_heads k1t batch_size heads head_dim) (\<lambda>k1.
              scaled_dot_product_attention query key val attention_mask None (Some k1) (Some dl)))
     | None \<Rightarrow> scaled_dot_product_attention query key val attention_mask None None None)))"

text \<open>
  The logits of that call, for reading them before the softmax: the same steps with
  \<open>attention_logits\<close> in place of the whole function and the default scale factor.
\<close>

definition attend_logits ::
  "nat \<Rightarrow> nat \<Rightarrow> nat \<Rightarrow> real tensor \<Rightarrow> real tensor \<Rightarrow> real tensor \<Rightarrow> real tensor \<Rightarrow> error + real tensor" where
  "attend_logits batch_size heads head_dim query key dl k1 =
     ebind (split_heads query batch_size heads head_dim) (\<lambda>query.
     ebind (split_heads key batch_size heads head_dim) (\<lambda>key.
     ebind (split_heads k1 batch_size heads head_dim) (\<lambda>k1.
     ebind (size_neg query 1) (\<lambda>E.
       if E = 0 then Inl ZeroDivisionError
       else attention_logits query key (1 / sqrt (real E)) (Some k1) (Some dl)))))"

text \<open>
  The logits as the specification words them, for comparison with \<open>attention_logits\<close>:
  the query-primary-key similarities, except that for each frame index \<open>i\<close> below the
  length of the blend vector the similarity at sequence position 0 is the secondary-key
  similarity at position 0 times \<open>blend[i]\<close>; then the scale factor. The frame index is
  the query's position (the last dimension but one), the sequence position the key's
  (the last dimension).
\<close>

definition specified_logits ::
  "real tensor \<Rightarrow> real tensor \<Rightarrow> real \<Rightarrow> real tensor \<Rightarrow> real tensor \<Rightarrow> error + real tensor" where
  "specified_logits query key scale_factor k1 dl =
     ebind (transpose_last2 k1) (\<lambda>k1T.
     ebind (matmul query k1T) (\<lambda>secondary.
     ebind (transpose_last2 key) (\<lambda>keyT.
     ebind (matmul query keyT) (\<lambda>primary.
     ebind (len_tensor dl) (\<lambda>n.
     Inr (tab (shape primary) (\<lambda>idx.
       let i = idx ! (length idx - 2); s = idx ! (length idx - 1)
       in (if i < n \<and> s = 0 then tget secondary idx * tget dl [i] else tget primary idx)
          * scale_factor)))))))"

section \<open>The injection function\<close>

text \<open>
  \<open>get_qk\<close> receives two tensor objects, may write into the query in place, and may
  keep both in the processor. The store maps each tensor object to its contents; the
  blend vector and the secondary key are new objects and are returned by their contents.
\<close>

type_synonym heap = "addr \<Rightarrow> real tensor"

text \<open>
  The first inner \<open>if\<close> (Case A): the query's sequence length is \<open>num_frames\<close> and
  query and key have one shape. \<open>.cuda()\<close> and the cast to the key's dtype are not
  modelled. The list comprehension multiplies \<open>self.LAMBDA\<close> once per frame, so a
  \<open>LAMBDA\<close> of \<open>None\<close> raises as soon as there is a frame.
\<close>

definition case_A ::
  "heap \<Rightarrow> cell \<Rightarrow> addr \<Rightarrow> addr \<Rightarrow> addr \<Rightarrow> error + (real tensor option \<times> real tensor option)" where
  "case_A h c query key key_list =
     ebind (shape_at (h query) 1) (\<lambda>s1.
       if Some s1 = num_frames c \<and> shape (h query) = shape (h key)
       then
         ebind (getitem (h key_list) [Slice None None, Slice None (Some 1)]) (\<lambda>rhs.
         ebind (shape_at (h key_list) 2) (\<lambda>d.
         ebind (setitem (clone (h key)) [Slice None None, Slice None (Some 1), Slice None (Some d)] rhs) (\<lambda>key1.
         ebind (if s1 = 0 then Inr []
                else case LAMBDA c of
                       None \<Rightarrow> Inl TypeError
                     | Some lam \<Rightarrow> Inr (map (\<lambda>i. 1 + lam * (real i / 50)) [0..<s1])) (\<lambda>ws.
         Inr (Some \<lparr>shape = [s1], vals = ws\<rparr>, Some key1)))))
       else Inr (None, None))"

text \<open>
  The loop \<open>for i in range(self.bs)\<close> of the second inner \<open>if\<close> (Case B): each round
  reads rows of the cached query and writes them into the query object.
\<close>

fun inject_rows :: "heap \<Rightarrow> addr \<Rightarrow> addr \<Rightarrow> nat \<Rightarrow> nat \<Rightarrow> nat list \<Rightarrow> error + heap" where
  "inject_rows h query query_list batch_dim all_dim [] = Inr h"
| "inject_rows h query query_list batch_dim all_dim (i # is) =
     ebind (getitem (h query_list) [Slice (Some (i * batch_dim)) (Some ((i + 1) * batch_dim))]) (\<lambda>rhs.
     ebind (shape_at (h query_list) 1) (\<lambda>d1.
     ebind (shape_at (h query_list) 2) (\<lambda>d2.
     ebind (setitem (h query)
              [Slice (Some (i * all_dim)) (Some (i * all_dim + batch_dim)),
               Slice None (Some d1), Slice None (Some d2)] rhs) (\<lambda>q'.
     inject_rows (h(query := q')) query query_list batch_dim all_dim is))))"

definition case_B :: "heap \<Rightarrow> cell \<Rightarrow> addr \<Rightarrow> addr \<Rightarrow> real tensor \<Rightarrow> real tensor \<Rightarrow> error + heap" where
  "case_B h c query query_list q_old k_old =
     (if shape q_old = shape k_old
      then ebind (shape_at q_old 1) (\<lambda>s1.
        if Some s1 \<noteq> num_frames c
        then
          ebind (shape_at (h query_list) 0) (\<lambda>ql0.
          case bs c of
            None \<Rightarrow> Inl TypeError
          | Some b \<Rightarrow>
              if b = 0 then Inl ZeroDivisionError
              else ebind (shape_at (h query) 0) (\<lambda>q0.
                inject_rows h query query_list (ql0 div b) (q0 div b) [0..<b]))
        else Inr h)
      else Inr h)"

text \<open>
  The result is the new store, the processor's fields after the call, and the returned
  tuple \<open>(query, key, dynamic_lambda, key1)\<close>.
\<close>

definition get_qk ::
  "heap \<Rightarrow> cell \<Rightarrow> addr \<Rightarrow> addr \<Rightarrow>
   error + (heap \<times> cell \<times> (addr \<times> addr \<times> real tensor option \<times> real tensor option))" where
  "get_qk h c query key =
     (let q_old = clone (h query); k_old = clone (h key) in
      ebind (if use_last_attn_slice c
             then (case last_attn_slice c of
                     Some (query_list, key_list) \<Rightarrow>
                       ebind (case_A h c query key key_list) (\<lambda>(dynamic_lambda, key1).
                       ebind (case_B h c query query_list q_old k_old) (\<lambda>h'.
                       Inr (h', dynamic_lambda, key1)))
                   | None \<Rightarrow> Inr (h, None, None))
             else Inr (h, None, None)) (\<lambda>(h', dynamic_lambda, key1).
      let c' = (if save_last_attn_slice c
                then c\<lparr>last_attn_slice := Some (query, key), save_last_attn_slice := False\<rparr>
                else c)
      in Inr (h', c', (query, key, dynamic_lambda, key1))))"

section \<open>The pipeline and its collaborators\<close>

text \<open>
  The network as the pipeline sees it: the modules \<open>named_modules()\<close> lists, with the
  processors the toggles write to, and everything else of the network's state.
\<close>

record 'x unet =
  modules :: unet_modules
  ext :: 'x

type_synonym kwargs = "(string \<Rightarrow> real option) option"

text \<open>
  What the source calls and does not define: the methods of the parent class
  \<open>TextToVideoSDPipeline\<close> (\<open>check_inputs\<close>, \<open>encode_prompt\<close>,
  \<open>prepare_latents\<close>, \<open>decode_latents\<close>), the scheduler, the network's forward pass,
  the image processor, and PyTorch's automatic differentiation and Adam optimizer. Each
  may raise. Timesteps (\<open>'t\<close>), text embeddings (\<open>'e\<close>) and postprocessed videos
  (\<open>'v\<close>) are opaque. The random generator, \<open>eta\<close> and the dictionary
  \<open>prepare_extra_step_kwargs\<close> builds from them are part of \<open>scheduler_step\<close> and
  \<open>prepare_latents\<close>; the scheduler's own state is not modelled. Only the forward pass
  takes and returns the network's state, since the source changes the processors' flags
  around it.
\<close>

record ('t, 'e, 'x, 'v) collab =
  sample_size :: nat
  vae_scale_factor :: nat
  in_channels :: nat
  scheduler_order :: nat
  check_inputs ::
    "string option \<Rightarrow> nat \<Rightarrow> nat \<Rightarrow> nat \<Rightarrow> string option \<Rightarrow> 'e option \<Rightarrow> 'e option \<Rightarrow> error option"
  encode_prompt ::
    "string option list \<Rightarrow> bool \<Rightarrow> string option list option \<Rightarrow> 'e option \<Rightarrow> 'e option \<Rightarrow>
     real option \<Rightarrow> nat option \<Rightarrow> error + ('e \<times> 'e option)"
  set_timesteps :: "nat \<Rightarrow> error + 't list"
  prepare_latents :: "nat \<Rightarrow> nat \<Rightarrow> nat \<Rightarrow> nat \<Rightarrow> nat \<Rightarrow> real tensor option \<Rightarrow> error + real tensor"
  scale_model_input :: "real tensor \<Rightarrow> 't \<Rightarrow> error + real tensor"
  unet_forward ::
    "'x unet \<Rightarrow> real tensor \<Rightarrow> 't \<Rightarrow> 'e option \<Rightarrow> kwargs \<Rightarrow> error + (real tensor \<times> 'x unet)"
  scheduler_step :: "real tensor \<Rightarrow> 't \<Rightarrow> real tensor \<Rightarrow> error + real tensor"
  decode_latents :: "real tensor \<Rightarrow> error + real tensor"
  postprocess :: "real tensor \<Rightarrow> string option \<Rightarrow> error + 'v"
  autograd :: "(real tensor \<Rightarrow> error + real) \<Rightarrow> real tensor \<Rightarrow> real list"
  adam_step :: "real \<Rightarrow> real list list \<Rightarrow> real list \<Rightarrow> real list \<Rightarrow> real list \<times> real list list"

text \<open>The two toggles and the two initialisers, on \<open>self.unet\<close>.\<close>

definition on_modules :: "(unet_modules \<Rightarrow> error + unet_modules) \<Rightarrow> 'x unet \<Rightarrow> error + 'x unet" where
  "on_modules f u = ebind (f (modules u)) (\<lambda>ms. Inr (u\<lparr>modules := ms\<rparr>))"

subsection \<open>\<open>call_network\<close>\<close>

text \<open>\<open>a, b, c, d, e = t.shape\<close>.\<close>

definition unpack5 :: "'a tensor \<Rightarrow> error + (nat \<times> nat \<times> nat \<times> nat \<times> nat)" where
  "unpack5 t =
     (case shape t of
        [a, b, c, d, e] \<Rightarrow> Inr (a, b, c, d, e)
      | _ \<Rightarrow> Inl ValueError)"

text \<open>\<open>uncond + guidance_scale * (pred - uncond)\<close>.\<close>

definition guide :: "real tensor \<Rightarrow> real tensor \<Rightarrow> real \<Rightarrow> error + real tensor" where
  "guide uncond pred guidance_scale =
     ebind (binop (-) pred uncond) (\<lambda>d.
     ebind (binop (*) (scalar guidance_scale) d) (\<lambda>sd.
     binop (+) uncond sd))"

text \<open>\<open>x.permute(0, 2, 1, 3, 4).reshape(n, c, a, b)\<close>.\<close>

definition frames_to_batch :: "real tensor \<Rightarrow> nat \<Rightarrow> nat \<Rightarrow> nat \<Rightarrow> nat \<Rightarrow> error + real tensor" where
  "frames_to_batch x n c a b =
     ebind (permute x [0, 2, 1, 3, 4]) (\<lambda>p. reshape p [Some n, Some c, Some a, Some b])"

text \<open>
  Back from the scheduler's layout: \<open>x[None, :].reshape(spec).permute(0, 2, 1, 3, 4)\<close>.
  The inversion branch passes \<open>(bsz, frames, -1) + x.shape[2:]\<close> for \<open>spec\<close>, the
  generation branch \<open>(bsz, frames, channel, width, height)\<close>.
\<close>

definition batch_to_frames :: "real tensor \<Rightarrow> nat option list \<Rightarrow> error + real tensor" where
  "batch_to_frames x spec =
     ebind (unsqueeze0 x) (\<lambda>un.
     ebind (reshape un spec) (\<lambda>r.
     permute r [0, 2, 1, 3, 4]))"

record step_output =
  out_latents :: "real tensor"
  out_inv_latents :: "real tensor"
  out_noise_pred :: "real tensor"
  out_noise_null_pred :: "real tensor option"

text \<open>
  The \<open>if i<=TAU_2:\<close> branch. The two unconditional predictions exist exactly when
  classifier-free guidance is on, so \<open>uncond\<close> is \<open>Some\<close> of them then and \<open>None\<close>
  otherwise, and the two later tests of \<open>do_classifier_free_guidance\<close> read as a case
  on it. The source unpacks the shape of \<open>inv_latents\<close> as \<open>bsz, channel, frames,
  width, height\<close> and reshapes to \<open>(bsz*frames, channel, height, width)\<close>.
\<close>

definition inversion_branch ::
  "('t, 'e, 'x, 'v) collab \<Rightarrow> 'x unet \<Rightarrow> real tensor \<Rightarrow> real tensor \<Rightarrow> 't \<Rightarrow> 'e \<Rightarrow> kwargs \<Rightarrow>
   (real tensor \<times> real tensor) option \<Rightarrow> real \<Rightarrow>
   error + (real tensor option \<times> real tensor \<times> 'x unet)" where
  "inversion_branch E u inv_latents inv_latent_model_input t null_embeds cak uncond guidance_scale =
     ebind (on_modules (\<lambda>ms. save_last_self_attention ms True) u) (\<lambda>u.
     ebind (unet_forward E u inv_latent_model_input t (Some null_embeds) cak) (\<lambda>(noise_null_pred, u).
     ebind (case uncond of
              Some (noise_pred_uncond, noise_null_pred_uncond) \<Rightarrow>
                guide noise_null_pred_uncond noise_null_pred guidance_scale
            | None \<Rightarrow> Inr noise_null_pred) (\<lambda>noise_null_pred.
     ebind (unpack5 inv_latents) (\<lambda>(bsz, channel, frames, width, height).
     ebind (frames_to_batch inv_latents (bsz * frames) channel height width) (\<lambda>inv4.
     ebind (frames_to_batch noise_null_pred (bsz * frames) channel height width) (\<lambda>noise_null_pred.
     ebind (scheduler_step E noise_null_pred t inv4) (\<lambda>prev.
     ebind (batch_to_frames prev ([Some bsz, Some frames, None] @ map Some (drop 2 (shape prev)))) (\<lambda>inv_latents.
     ebind (on_modules (\<lambda>ms. use_last_self_attention ms True) u) (\<lambda>u.
     Inr (Some noise_null_pred, inv_latents, u))))))))))"

text \<open>
  The rest of the function after that branch: the generation branch is denoised with the
  positive prompt, the use flag is cleared, guidance is applied, and the latents advance
  one scheduler step. The result is the new latents, the reshaped noise prediction and
  the network.
\<close>

definition generation_branch ::
  "('t, 'e, 'x, 'v) collab \<Rightarrow> 'x unet \<Rightarrow> real tensor \<Rightarrow> real tensor \<Rightarrow> 't \<Rightarrow> 'e \<Rightarrow> kwargs \<Rightarrow>
   (real tensor \<times> real tensor) option \<Rightarrow> real \<Rightarrow>
   error + (real tensor \<times> real tensor \<times> 'x unet)" where
  "generation_branch E u latents latent_model_input t prompt_embeds cak uncond guidance_scale =
     ebind (unet_forward E u latent_model_input t (Some prompt_embeds) cak) (\<lambda>(noise_pred, u).
     ebind (on_modules (\<lambda>ms. use_last_self_attention ms False) u) (\<lambda>u.
     ebind (case uncond of
              Some (noise_pred_uncond, noise_null_pred_uncond) \<Rightarrow>
                guide noise_pred_uncond noise_pred guidance_scale
            | None \<Rightarrow> Inr noise_pred) (\<lambda>noise_pred.
     ebind (unpack5 latents) (\<lambda>(bsz, channel, frames, width, height).
     ebind (frames_to_batch latents (bsz * frames) channel width height) (\<lambda>lat4.
     ebind (frames_to_batch noise_pred (bsz * frames) channel width height) (\<lambda>noise_pred.
     ebind (scheduler_step E noise_pred t lat4) (\<lambda>prev.
     ebind (batch_to_frames prev [Some bsz, Some frames, Some channel, Some width, Some height]) (\<lambda>latents.
     Inr (latents, noise_pred, u)))))))))"

text \<open>The unconditional predictions of both branches, made when guidance is on.\<close>

definition unconditional_predictions ::
  "('t, 'e, 'x, 'v) collab \<Rightarrow> 'x unet \<Rightarrow> real tensor \<Rightarrow> real tensor \<Rightarrow> 't \<Rightarrow> 'e option \<Rightarrow> kwargs \<Rightarrow> bool \<Rightarrow>
   error + ((real tensor \<times> real tensor) option \<times> 'x unet)" where
  "unconditional_predictions E u latent_model_input inv_latent_model_input t negative_prompt_embeds cak
       do_classifier_free_guidance =
     (if do_classifier_free_guidance
      then
        ebind (unet_forward E u latent_model_input t negative_prompt_embeds cak) (\<lambda>(noise_pred_uncond, u).
        ebind (unet_forward E u inv_latent_model_input t negative_prompt_embeds cak) (\<lambda>(noise_null_pred_uncond, u).
        Inr (Some (noise_pred_uncond, noise_null_pred_uncond), u)))
      else Inr (None, u))"

definition call_network ::
  "('t, 'e, 'x, 'v) collab \<Rightarrow> 'x unet \<Rightarrow> 'e option \<Rightarrow> 'e \<Rightarrow> real tensor \<Rightarrow> real tensor \<Rightarrow> 't \<Rightarrow> nat \<Rightarrow>
   'e \<Rightarrow> kwargs \<Rightarrow> bool \<Rightarrow> real \<Rightarrow> error + (step_output \<times> 'x unet)" where
  "call_network E u negative_prompt_embeds prompt_embeds latents inv_latents t i null_embeds cak
       do_classifier_free_guidance guidance_scale =
     ebind (scale_model_input E inv_latents t) (\<lambda>inv_latent_model_input.
     ebind (scale_model_input E latents t) (\<lambda>latent_model_input.
     ebind (unconditional_predictions E u latent_model_input inv_latent_model_input t
              negative_prompt_embeds cak do_classifier_free_guidance) (\<lambda>(uncond, u).
     ebind (if i \<le> TAU_2
            then inversion_branch E u inv_latents inv_latent_model_input t null_embeds cak uncond guidance_scale
            else Inr (None, inv_latents, u)) (\<lambda>(noise_null_pred, inv_latents, u).
     ebind (generation_branch E u latents latent_model_input t prompt_embeds cak uncond guidance_scale)
       (\<lambda>(latents, noise_pred, u).
     Inr (\<lparr>out_latents = latents, out_inv_latents = inv_latents,
           out_noise_pred = noise_pred, out_noise_null_pred = noise_null_pred\<rparr>, u))))))"

subsection \<open>\<open>optimize_latents\<close>\<close>

text \<open>\<open>torch.nn.functional.mse_loss\<close> with its default mean reduction.\<close>

definition mse_loss :: "real tensor \<Rightarrow> real tensor \<Rightarrow> error + real" where
  "mse_loss a b =
     ebind (binop (-) a b) (\<lambda>d. Inr (sum_list (map (\<lambda>x. x * x) (vals d)) / real (length (vals d))))"

definition frame_slice :: "nat option \<Rightarrow> nat option \<Rightarrow> ix list" where
  "frame_slice a b = [Slice None None, Slice None None, Slice a b, Slice None None, Slice None None]"

definition frame_at :: "nat \<Rightarrow> ix list" where
  "frame_at k = [Slice None None, Slice None None, Int_ix k, Slice None None, Slice None None]"

text \<open>
  The forward part of one round of the loop \<open>for j in range(10)\<close>: the input
  \<open>latent_in\<close> of the round and the loss, for a given value of \<open>latent_train\<close>.
\<close>

definition optimizer_forward ::
  "('t, 'e, 'x, 'v) collab \<Rightarrow> 'x unet \<Rightarrow> real tensor \<Rightarrow> 't \<Rightarrow> 'e \<Rightarrow> kwargs \<Rightarrow> real tensor \<Rightarrow>
   real tensor \<Rightarrow> error + (real tensor \<times> real \<times> 'x unet)" where
  "optimizer_forward E u inv_latents t prompt_embeds cak noise_null_pred latent_train =
     ebind (getitem inv_latents (frame_slice (Some 0) (Some 1))) (\<lambda>inv0.
     ebind (cat2 inv0 latent_train 2) (\<lambda>latent_in.
     ebind (scale_model_input E latent_in t) (\<lambda>latent_input_unet.
     ebind (unet_forward E u latent_input_unet t (Some prompt_embeds) cak) (\<lambda>(noise_pred, u).
     ebind (getitem noise_pred (frame_at 0)) (\<lambda>a.
     ebind (getitem noise_null_pred (frame_at 0)) (\<lambda>b.
     ebind (mse_loss a b) (\<lambda>loss.
     Inr (latent_in, loss, u))))))))"

text \<open>
  The loop over \<open>j\<close>. \<open>loss.backward()\<close> and \<open>optimizer.step()\<close> are the two
  collaborators \<open>autograd\<close> (the gradient of the round's loss in \<open>latent_train\<close>) and
  \<open>adam_step\<close> (learning rate, optimizer state, parameter and gradient to the new
  parameter and state); the step writes into \<open>latent_train\<close> in place, so its shape
  stays. The state of the loop is \<open>latent_train\<close>, the optimizer's state, the network
  and the last \<open>latent_in\<close>.
\<close>

fun optimizer_rounds ::
  "('t, 'e, 'x, 'v) collab \<Rightarrow> real tensor \<Rightarrow> 't \<Rightarrow> 'e \<Rightarrow> kwargs \<Rightarrow> real tensor \<Rightarrow> nat list \<Rightarrow>
   (real tensor \<times> real list list \<times> 'x unet \<times> real tensor option) \<Rightarrow>
   error + (real tensor \<times> real list list \<times> 'x unet \<times> real tensor option)" where
  "optimizer_rounds E inv_latents t prompt_embeds cak noise_null_pred [] s = Inr s"
| "optimizer_rounds E inv_latents t prompt_embeds cak noise_null_pred (j # js) (latent_train, opt, u, last_in) =
     ebind (optimizer_forward E u inv_latents t prompt_embeds cak noise_null_pred latent_train)
       (\<lambda>(latent_in, loss, u').
     let grad = autograd E
           (\<lambda>x. ebind (optimizer_forward E u inv_latents t prompt_embeds cak noise_null_pred x)
                   (\<lambda>(latent_in, loss, u'). Inr loss)) latent_train;
         (new_vals, opt') = adam_step E (1 / 1000) opt (vals latent_train) grad
     in optimizer_rounds E inv_latents t prompt_embeds cak noise_null_pred js
          (latent_train\<lparr>vals := new_vals\<rparr>, opt', u', Some latent_in))"

definition optimize_latents ::
  "('t, 'e, 'x, 'v) collab \<Rightarrow> 'x unet \<Rightarrow> real tensor \<Rightarrow> real tensor \<Rightarrow> 't \<Rightarrow> nat \<Rightarrow> 'e \<Rightarrow> kwargs \<Rightarrow> 'e \<Rightarrow>
   error + (real tensor \<times> 'x unet)" where
  "optimize_latents E u latents inv_latents t i null_embeds cak prompt_embeds =
     ebind (scale_model_input E inv_latents t) (\<lambda>inv_scaled.
     ebind (getitem inv_scaled (frame_slice (Some 0) (Some 1))) (\<lambda>inv_scaled0.
     ebind (unet_forward E u inv_scaled0 t (Some null_embeds) cak) (\<lambda>(noise_null_pred, u).
     ebind (getitem latents (frame_slice (Some 1) None)) (\<lambda>latent_train.
     ebind (optimizer_rounds E inv_latents t prompt_embeds cak noise_null_pred [0..<10]
              (clone latent_train, [], u, None)) (\<lambda>(latent_train, opt, u, last_in).
     case last_in of
       Some latent_in \<Rightarrow> Inr (latent_in, u)
     | None \<Rightarrow> Inl (External ''NameError''))))))"

subsection \<open>The pipeline call\<close>

text \<open>
  The arguments of \<open>__call__\<close>. \<open>prompt\<close> is a single string or \<open>None\<close>; the
  callback can only raise or return.
\<close>

record ('t, 'e) call_args =
  prompt :: "string option"
  height :: "nat option"
  width :: "nat option"
  frames_arg :: nat
  num_inference_steps :: nat
  guidance_scale_arg :: real
  negative_prompt :: "string option"
  latents_arg :: "real tensor option"
  inv_latents_arg :: "real tensor option"
  prompt_embeds_arg :: "'e option"
  negative_prompt_embeds_arg :: "'e option"
  output_type :: "string option"
  return_dict :: bool
  callback :: "(nat \<Rightarrow> 't \<Rightarrow> real tensor \<Rightarrow> error option) option"
  callback_steps :: nat
  cross_attention_kwargs :: kwargs
  clip_skip :: "nat option"
  lambda_arg :: "real option"

text \<open>Python's \<open>x or d\<close> on an optional integer.\<close>

definition or_default :: "nat option \<Rightarrow> nat \<Rightarrow> nat" where
  "or_default x d = (case x of None \<Rightarrow> d | Some n \<Rightarrow> if n = 0 then d else n)"

definition raise_if :: "error option \<Rightarrow> error + unit" where
  "raise_if r = (case r of None \<Rightarrow> Inr () | Some e \<Rightarrow> Inl e)"

record ('t, 'e, 'x) prepared =
  p_batch_size :: nat
  p_do_cfg :: bool
  p_prompt_embeds :: 'e
  p_negative_prompt_embeds :: "'e option"
  p_null_embeds :: 'e
  p_timesteps :: "'t list"
  p_latents :: "real tensor"
  p_inv_latents :: "real tensor"
  p_num_warmup_steps :: int
  p_unet :: "'x unet"

text \<open>
  Steps 0 to 6 of \<open>__call__\<close>, up to \<open>init_attention_params\<close>. The batch size is read
  from the \<open>inv_latents\<close> argument as the caller passed it, before anything is encoded
  or prepared.
\<close>

definition call_height :: "('t, 'e, 'x, 'v) collab \<Rightarrow> ('t, 'e) call_args \<Rightarrow> nat" where
  "call_height E a = or_default (height a) (sample_size E * vae_scale_factor E)"

definition call_width :: "('t, 'e, 'x, 'v) collab \<Rightarrow> ('t, 'e) call_args \<Rightarrow> nat" where
  "call_width E a = or_default (width a) (sample_size E * vae_scale_factor E)"

definition prepare_call ::
  "('t, 'e, 'x, 'v) collab \<Rightarrow> 'x unet \<Rightarrow> ('t, 'e) call_args \<Rightarrow> error + ('t, 'e, 'x) prepared" where
  "prepare_call E u a =
     (let h = call_height E a;
          w = call_width E a;
          num_images_per_prompt = 1
      in
      ebind (raise_if (check_inputs E (prompt a) h w (callback_steps a) (negative_prompt a)
               (prompt_embeds_arg a) (negative_prompt_embeds_arg a))) (\<lambda>_.
      ebind (case inv_latents_arg a of None \<Rightarrow> Inl AttributeError | Some iv \<Rightarrow> shape_at iv 0) (\<lambda>batch_size.
      let do_cfg = (guidance_scale_arg a > 1);
          lora_scale = (case cross_attention_kwargs a of None \<Rightarrow> None | Some d \<Rightarrow> d ''scale'');
          negatives = (case negative_prompt a of
                         None \<Rightarrow> None
                       | Some n \<Rightarrow> Some (replicate batch_size (Some n)))
      in
      ebind (encode_prompt E (replicate batch_size (prompt a)) do_cfg negatives
               (prompt_embeds_arg a) (negative_prompt_embeds_arg a) lora_scale (clip_skip a))
        (\<lambda>(prompt_embeds, negative_prompt_embeds).
      ebind (encode_prompt E (replicate batch_size (Some [])) do_cfg negatives
               None negative_prompt_embeds lora_scale (clip_skip a))
        (\<lambda>(null_embeds, negative_prompt_embeds).
      ebind (set_timesteps E (num_inference_steps a)) (\<lambda>timesteps.
      ebind (prepare_latents E (batch_size * num_images_per_prompt) (in_channels E) (frames_arg a) h w
               (latents_arg a)) (\<lambda>latents.
      ebind (prepare_latents E (batch_size * num_images_per_prompt) (in_channels E) (frames_arg a) h w
               (inv_latents_arg a)) (\<lambda>inv_latents.
      let num_warmup_steps = int (length timesteps) - int (num_inference_steps a * scheduler_order E);
          u = u\<lparr>modules := init_attention_func (modules u)\<rparr>
      in
      ebind (shape_at latents 2) (\<lambda>nf.
      ebind (on_modules (\<lambda>ms. init_attention_params ms (Some nf) (lambda_arg a) (Some batch_size)) u) (\<lambda>u.
      Inr \<lparr>p_batch_size = batch_size, p_do_cfg = do_cfg, p_prompt_embeds = prompt_embeds,
           p_negative_prompt_embeds = negative_prompt_embeds, p_null_embeds = null_embeds,
           p_timesteps = timesteps, p_latents = latents, p_inv_latents = inv_latents,
           p_num_warmup_steps = num_warmup_steps, p_unet = u\<rparr>))))))))))"

text \<open>
  The statements between \<open>with self.progress_bar\<close> and the loop: the frame mask, the
  assertion on the two batch sizes, the repetition of the inversion latents and the blend.
\<close>

definition seed_latents :: "nat \<Rightarrow> real tensor \<Rightarrow> real tensor \<Rightarrow> error + (real tensor \<times> real tensor)" where
  "seed_latents nf latents inv_latents =
     ebind (setitem (zeros (shape latents)) (frame_at 0) (scalar 1)) (\<lambda>mask_in.
     ebind (shape_at latents 0) (\<lambda>b.
     ebind (shape_at inv_latents 0) (\<lambda>b_inv.
     if b \<noteq> b_inv then Inl AssertionError
     else
       ebind (repeat_tensor inv_latents [1, 1, nf, 1, 1]) (\<lambda>inv_latents.
       ebind (binop (*) inv_latents mask_in) (\<lambda>x.
       ebind (binop (-) (scalar 1) mask_in) (\<lambda>one_minus.
       ebind (binop (*) latents one_minus) (\<lambda>y.
       ebind (binop (+) x y) (\<lambda>latents.
       Inr (latents, inv_latents)))))))))"

definition iters_to_alter :: "int list" where
  "iters_to_alter = [- 1]"

text \<open>
  The first two statements of a round:
  \<open>curr_copy = max(1,num_frames - i)\<close> and \<open>inv_latents = inv_latents[:,:,:curr_copy, :, : ]\<close>.
\<close>

definition shrink_window :: "nat \<Rightarrow> nat \<Rightarrow> real tensor \<Rightarrow> error + real tensor" where
  "shrink_window nf i inv_latents =
     (let curr_copy = max 1 (nf - i) in getitem inv_latents (frame_slice None (Some curr_copy)))"

text \<open>
  One round of \<open>for i, t in enumerate(timesteps)\<close>, on the state \<open>(latents,
  inv_latents, unet)\<close>. The progress bar is not modelled; \<open>update\<close> is the test
  that guards it and the callback, whose remainders by the scheduler's order and by
  \<open>callback_steps\<close> raise when the divisor is 0.
\<close>

definition loop_body ::
  "('t, 'e, 'x, 'v) collab \<Rightarrow> ('t, 'e) call_args \<Rightarrow> ('t, 'e, 'x) prepared \<Rightarrow> nat \<Rightarrow> 't \<Rightarrow>
   (real tensor \<times> real tensor \<times> 'x unet) \<Rightarrow> error + (real tensor \<times> real tensor \<times> 'x unet)" where
  "loop_body E a p i t s =
     (case s of (latents, inv_latents, u) \<Rightarrow>
      ebind (shrink_window (frames_arg a) i inv_latents) (\<lambda>inv_latents.
      ebind (if int i \<in> set iters_to_alter
             then optimize_latents E u latents inv_latents t i (p_null_embeds p)
                    (cross_attention_kwargs a) (p_prompt_embeds p)
             else Inr (latents, u)) (\<lambda>(latents, u).
      ebind (call_network E u (p_negative_prompt_embeds p) (p_prompt_embeds p) latents inv_latents t i
               (p_null_embeds p) (cross_attention_kwargs a) (p_do_cfg p) (guidance_scale_arg a))
        (\<lambda>(output_dict, u).
      let latents = out_latents output_dict;
          inv_latents = out_inv_latents output_dict
      in
      ebind (if int i = int (length (p_timesteps p)) - 1 then Inr True
             else if int i + 1 > p_num_warmup_steps p
             then (if scheduler_order E = 0 then Inl ZeroDivisionError
                   else Inr ((i + 1) mod scheduler_order E = 0))
             else Inr False) (\<lambda>update.
      ebind (if update
             then (case callback a of
                     None \<Rightarrow> Inr ()
                   | Some cb \<Rightarrow>
                       if callback_steps a = 0 then Inl ZeroDivisionError
                       else if i mod callback_steps a = 0
                       then (if scheduler_order E = 0 then Inl ZeroDivisionError
                             else raise_if (cb (i div scheduler_order E) t latents))
                       else Inr ())
             else Inr ()) (\<lambda>_.
      Inr (latents, inv_latents, u)))))))"

fun denoise_loop ::
  "('t, 'e, 'x, 'v) collab \<Rightarrow> ('t, 'e) call_args \<Rightarrow> ('t, 'e, 'x) prepared \<Rightarrow> nat \<Rightarrow> 't list \<Rightarrow>
   (real tensor \<times> real tensor \<times> 'x unet) \<Rightarrow> error + (real tensor \<times> real tensor \<times> 'x unet)" where
  "denoise_loop E a p i [] s = Inr s"
| "denoise_loop E a p i (t # ts) s =
     ebind (loop_body E a p i t s) (\<lambda>s'. denoise_loop E a p (Suc i) ts s')"

text \<open>\<open>tensor2vid\<close> and step 8.\<close>

datatype 'v video = Latents "real tensor" | Np_stack "'v list" | Pt_stack "'v list" | Pil_list "'v list"

datatype 'v pipeline_result = Tuple_of "'v video" | Output_frames "'v video"

fun postprocess_all ::
  "('t, 'e, 'x, 'v) collab \<Rightarrow> real tensor \<Rightarrow> string option \<Rightarrow> nat list \<Rightarrow> error + 'v list" where
  "postprocess_all E video ot [] = Inr []"
| "postprocess_all E video ot (batch_idx # rest) =
     ebind (getitem video [Int_ix batch_idx]) (\<lambda>v.
     ebind (permute v [1, 0, 2, 3]) (\<lambda>batch_vid.
     ebind (postprocess E batch_vid ot) (\<lambda>batch_output.
     ebind (postprocess_all E video ot rest) (\<lambda>outputs.
     Inr (batch_output # outputs)))))"

definition tensor2vid :: "('t, 'e, 'x, 'v) collab \<Rightarrow> real tensor \<Rightarrow> string option \<Rightarrow> error + 'v video" where
  "tensor2vid E video ot =
     ebind (unpack5 video) (\<lambda>(batch_size, channels, nf, h, w).
     ebind (postprocess_all E video ot [0..<batch_size]) (\<lambda>outputs.
     if ot = Some ''np'' then Inr (Np_stack outputs)
     else if ot = Some ''pt'' then Inr (Pt_stack outputs)
     else if ot \<noteq> Some ''pil'' then Inl ValueError
     else Inr (Pil_list outputs)))"

definition pipeline_call ::
  "('t, 'e, 'x, 'v) collab \<Rightarrow> 'x unet \<Rightarrow> ('t, 'e) call_args \<Rightarrow> error + ('v pipeline_result \<times> 'x unet)" where
  "pipeline_call E u a =
     ebind (prepare_call E u a) (\<lambda>p.
     ebind (seed_latents (frames_arg a) (p_latents p) (p_inv_latents p)) (\<lambda>(latents, inv_latents).
     ebind (denoise_loop E a p 0 (p_timesteps p) (latents, inv_latents, p_unet p)) (\<lambda>(latents, inv_latents, u).
     ebind (if output_type a = Some ''latent'' then Inr (Latents latents)
            else ebind (decode_latents E latents) (\<lambda>video_tensor.
                 tensor2vid E video_tensor (output_type a))) (\<lambda>video.
     Inr (if \<not> return_dict a then Tuple_of video else Output_frames video, u)))))"

section \<open>Contracts of the collaborators\<close>

text \<open>
  Every attention module has a processor, as it has after \<open>init_attention_func\<close>.
\<close>

definition procs_ok :: "unet_modules \<Rightarrow> bool" where
  "procs_ok ms = (\<forall>m \<in> set ms. class_name m = ''Attention'' \<longrightarrow> processor m \<noteq> None)"

text \<open>
  What the specification asks of the scheduler and the network: they return, the
  result has the shape of the sample (for the network, of its input), and the forward
  pass leaves every attention module its processor.
\<close>

definition shape_preserving :: "('t, 'e, 'x, 'v) collab \<Rightarrow> bool" where
  "shape_preserving E =
     ((\<forall>x t. \<exists>y. scale_model_input E x t = Inr y \<and> shape y = shape x) \<and>
      (\<forall>u x t e k. \<exists>y u'. unet_forward E u x t e k = Inr (y, u') \<and> shape y = shape x \<and>
           (procs_ok (modules u) \<longrightarrow> procs_ok (modules u'))) \<and>
      (\<forall>n t x. \<exists>y. scheduler_step E n t x = Inr y \<and> shape y = shape x))"

text \<open>
  The unconditional predictions, when there are any, have the shapes of the two
  branches' latents.
\<close>

definition uncond_fits :: "(real tensor \<times> real tensor) option \<Rightarrow> nat list \<Rightarrow> nat list \<Rightarrow> bool" where
  "uncond_fits uncond sl si = (case uncond of None \<Rightarrow> True | Some (x, y) \<Rightarrow> shape x = sl \<and> shape y = si)"

section \<open>Example inputs\<close>

text \<open>
  An example network: a self-attention layer, one of its sublayers (whose name contains
  \<open>attn1\<close> but whose class is \<open>Linear\<close>), and a cross-attention layer.
\<close>

definition example_unet :: unet_modules where
  "example_unet =
     [\<lparr>mod_name = ''blk.attn1'', class_name = ''Attention'', processor = Some fresh_cell\<rparr>,
      \<lparr>mod_name = ''blk.attn1.to_q'', class_name = ''Linear'', processor = None\<rparr>,
      \<lparr>mod_name = ''blk.attn2'', class_name = ''Attention'',
        processor = Some (fresh_cell\<lparr>last_attn_slice := Some (3, 4)\<rparr>)\<rparr>]"

text \<open>
  A store with a query (address 0), a key (1) and a cached pair (2, 3), all of shape
  \<open>[2, 2, 2]\<close>, and two processors that hold the cached pair with both flags set: one
  whose \<open>num_frames\<close> is the sequence length (Case A) and one whose is not (Case B).
\<close>

definition example_heap :: heap where
  "example_heap =
     (\<lambda>_. \<lparr>shape = [], vals = [0]\<rparr>)
       (0 := \<lparr>shape = [2, 2, 2], vals = [1, 2, 3, 4, 5, 6, 7, 8]\<rparr>,
        1 := \<lparr>shape = [2, 2, 2], vals = [11, 12, 13, 14, 15, 16, 17, 18]\<rparr>,
        2 := \<lparr>shape = [2, 2, 2], vals = [21, 22, 23, 24, 25, 26, 27, 28]\<rparr>,
        3 := \<lparr>shape = [2, 2, 2], vals = [31, 32, 33, 34, 35, 36, 37, 38]\<rparr>)"

definition example_cell_A :: cell where
  "example_cell_A =
     \<lparr>last_attn_slice = Some (2, 3), use_last_attn_slice = True, save_last_attn_slice = True,
      LAMBDA = Some (1 / 2), num_frames = Some 2, bs = Some 1\<rparr>"

definition example_cell_B :: cell where
  "example_cell_B =
     \<lparr>last_attn_slice = Some (2, 3), use_last_attn_slice = True, save_last_attn_slice = True,
      LAMBDA = Some (1 / 2), num_frames = Some 16, bs = Some 2\<rparr>"

text \<open>
  A temporal self-attention call on two frames with one head of dimension 1, with
  \<open>lambda_ = 0.5\<close>: query \<open>[1, 2]\<close> and key \<open>[3, 5]\<close> over the two frames, and a
  cached key whose frame 0 is \<open>7\<close>.
\<close>

definition blend_heap :: heap where
  "blend_heap =
     (\<lambda>_. \<lparr>shape = [], vals = [0]\<rparr>)
       (0 := \<lparr>shape = [1, 2, 1], vals = [1, 2]\<rparr>,
        1 := \<lparr>shape = [1, 2, 1], vals = [3, 5]\<rparr>,
        2 := \<lparr>shape = [1, 2, 1], vals = [4, 6]\<rparr>,
        3 := \<lparr>shape = [1, 2, 1], vals = [7, 9]\<rparr>)"

definition blend_cell :: cell where
  "blend_cell =
     \<lparr>last_attn_slice = Some (2, 3), use_last_attn_slice = True, save_last_attn_slice = False,
      LAMBDA = Some (1 / 2), num_frames = Some 2, bs = Some 1\<rparr>"

text \<open>
  Stub collaborators: a network that returns zero noise and counts its calls in its
  state, a scheduler that leaves the sample as it is, latents of ones when none are
  supplied, and timesteps \<open>n - 1, ..., 0\<close>.
\<close>

definition stub :: "(nat, unit, nat, real tensor) collab" where
  "stub =
     \<lparr>sample_size = 2, vae_scale_factor = 1, in_channels = 1, scheduler_order = 1,
      check_inputs = (\<lambda>p h w cs np pe npe. None),
      encode_prompt = (\<lambda>ps cfg nps pe npe lora cs. Inr ((), if cfg then Some () else None)),
      set_timesteps = (\<lambda>n. Inr (rev [0..<n])),
      prepare_latents = (\<lambda>b c f h w given.
         case given of None \<Rightarrow> Inr (tab [b, c, f, h, w] (\<lambda>_. 1)) | Some l \<Rightarrow> Inr l),
      scale_model_input = (\<lambda>x t. Inr x),
      unet_forward = (\<lambda>u x t e k. Inr (zeros (shape x), u\<lparr>ext := Suc (ext u)\<rparr>)),
      scheduler_step = (\<lambda>noise t sample. Inr sample),
      decode_latents = (\<lambda>x. Inr x),
      postprocess = (\<lambda>x ot. Inr x),
      autograd = (\<lambda>f x. map (\<lambda>_. 0) (vals x)),
      adam_step = (\<lambda>lr st p g. (p, st))\<rparr>"

definition stub_unet :: "nat unet" where
  "stub_unet = \<lparr>modules = example_unet, ext = 0\<rparr>"

definition stub_args :: "(nat, unit) call_args" where
  "stub_args =
     \<lparr>prompt = Some ''a cat'', height = None, width = None, frames_arg = 3,
      num_inference_steps = 4, guidance_scale_arg = 9, negative_prompt = None,
      latents_arg = None,
      inv_latents_arg = Some \<lparr>shape = [1, 1, 1, 2, 2], vals = [5, 6, 7, 8]\<rparr>,
      prompt_embeds_arg = None, negative_prompt_embeds_arg = None,
      output_type = Some ''latent'', return_dict = True, callback = None, callback_steps = 1,
      cross_attention_kwargs = None, clip_skip = None, lambda_arg = Some (1 / 2)\<rparr>"

text \<open>The same call with generation latents of batch size 2 against inversion latents of batch size 1.\<close>

definition mismatched_args :: "(nat, unit) call_args" where
  "mismatched_args = stub_args\<lparr>latents_arg := Some (tab [2, 1, 3, 2, 2] (\<lambda>_. 1))\<rparr>"

definition prepared_unet :: "nat unet" where
  "prepared_unet =
     \<lparr>modules =
        [\<lparr>mod_name = ''blk.attn1'', class_name = ''Attention'',
          processor = Some (fresh_cell\<lparr>LAMBDA := Some (1 / 2), num_frames := Some 3, bs := Some 1\<rparr>)\<rparr>,
         \<lparr>mod_name = ''blk.attn1.to_q'', class_name = ''Linear'', processor = None\<rparr>,
         \<lparr>mod_name = ''blk.attn2'', class_name = ''Attention'',
          processor = Some (fresh_cell\<lparr>LAMBDA := Some (1 / 2), num_frames := Some 3, bs := Some 1\<rparr>)\<rparr>],
      ext = 0\<rparr>"

definition mismatched_prepared :: "(nat, unit, nat) prepared" where
  "mismatched_prepared =
     \<lparr>p_batch_size = 1, p_do_cfg = True, p_prompt_embeds = (),
      p_negative_prompt_embeds = Some (), p_null_embeds = (), p_timesteps = [3, 2, 1, 0],
      p_latents = tab [2, 1, 3, 2, 2] (\<lambda>_. 1),
      p_inv_latents = \<lparr>shape = [1, 1, 1, 2, 2], vals = [5, 6, 7, 8]\<rparr>,
      p_num_warmup_steps = 0, p_unet = prepared_unet\<rparr>"

text \<open>What \<open>prepare_call\<close> makes of the stub call, for runs of the loop on it.\<close>

definition stub_prepared :: "(nat, unit, nat) prepared" where
  "stub_prepared = mismatched_prepared\<lparr>p_latents := tab [1, 1, 3, 2, 2] (\<lambda>_. 1)\<rparr>"

text \<open>
  The state of the stub network after \<open>n\<close> forward passes inside the cutoff: the stub
  does not run the processors, so the save flag of the self-attention layer stays set.
\<close>

definition stepped_unet :: "nat \<Rightarrow> nat unet" where
  "stepped_unet n =
     \<lparr>modules =
        [\<lparr>mod_name = ''blk.attn1'', class_name = ''Attention'',
          processor = Some (fresh_cell\<lparr>save_last_attn_slice := True, LAMBDA := Some (1 / 2),
                                     num_frames := Some 3, bs := Some 1\<rparr>)\<rparr>,
         \<lparr>mod_name = ''blk.attn1.to_q'', class_name = ''Linear'', processor = None\<rparr>,
         \<lparr>mod_name = ''blk.attn2'', class_name = ''Attention'',
          processor = Some (fresh_cell\<lparr>LAMBDA := Some (1 / 2), num_frames := Some 3, bs := Some 1\<rparr>)\<rparr>],
      ext = n\<rparr>"

definition seeded_latents :: "real tensor" where
  "seeded_latents = \<lparr>shape = [1, 1, 3, 2, 2], vals = [5, 6, 7, 8, 1, 1, 1, 1, 1, 1, 1, 1]\<rparr>"

definition seeded_inv_latents :: "real tensor" where
  "seeded_inv_latents = \<lparr>shape = [1, 1, 3, 2, 2], vals = [5, 6, 7, 8, 5, 6, 7, 8, 5, 6, 7, 8]\<rparr>"

text \<open>The stub call with neither latent buffer supplied.\<close>

definition missing_args :: "(nat, unit) call_args" where
  "missing_args = stub_args\<lparr>latents_arg := None, inv_latents_arg := None\<rparr>"

section \<open>Facts about the error monad and tensors\<close>

lemma ebind_Inr_iff: "ebind m f = Inr y \<longleftrightarrow> (\<exists>x. m = Inr x \<and> f x = Inr y)"
  by (cases m) (simp_all add: ebind_def)

lemma ebind_Inr [simp]: "ebind (Inr x) f = f x"
  by (simp add: ebind_def)

lemma ebind_Inl [simp]: "ebind (Inl e) f = Inl e"
  by (simp add: ebind_def)



lemma shape_tab [simp]: "shape (tab shp f) = shp"
  by (simp add: tab_def)

lemma wf_tab [simp]: "wf (tab shp f)"
  by (simp add: tab_def wf_def)


section \<open>Flag toggles touch self-attention modules only\<close>

lemma for_modules_length:
  "for_modules body ms = Inr ms' \<Longrightarrow> length ms' = length ms"
  by (induction ms arbitrary: ms') (auto simp: ebind_def split: sum.splits)

lemma for_modules_nth:
  "for_modules body ms = Inr ms' \<Longrightarrow> j < length ms \<Longrightarrow> body (ms ! j) = Inr (ms' ! j)"
proof (induction ms arbitrary: ms' j)
  case Nil
  then show ?case by simp
next
  case (Cons m ms)
  then show ?case
    by (cases j) (auto simp: ebind_def split: sum.splits)
qed

lemma toggle_effect:
  assumes "for_modules (\<lambda>m. if class_name m = ''Attention'' \<and> str_in ''attn1'' (mod_name m)
              then set_processor_field upd m else Inr m) unet = Inr unet'"
  shows "length unet' = length unet \<and>
     (\<forall>j < length unet.
        (\<not> is_attn1 (unet ! j) \<longrightarrow> unet' ! j = unet ! j) \<and>
        (is_attn1 (unet ! j) \<longrightarrow>
           (\<exists>p. processor (unet ! j) = Some p \<and>
                unet' ! j = (unet ! j)\<lparr>processor := Some (upd p)\<rparr>)))"
proof (intro conjI allI impI)
  show "length unet' = length unet"
    using assms by (rule for_modules_length)
next
  fix j assume j: "j < length unet" and n: "\<not> is_attn1 (unet ! j)"
  from for_modules_nth [OF assms j] n show "unet' ! j = unet ! j"
    by (simp add: is_attn1_def split: if_splits)
next
  fix j assume j: "j < length unet" and a: "is_attn1 (unet ! j)"
  from for_modules_nth [OF assms j] a
  have "set_processor_field upd (unet ! j) = Inr (unet' ! j)"
    by (simp add: is_attn1_def)
  then show "\<exists>p. processor (unet ! j) = Some p \<and>
      unet' ! j = (unet ! j)\<lparr>processor := Some (upd p)\<rparr>"
    by (auto simp: set_processor_field_def split: option.splits)
qed

text \<open>
  Claim C10. \<open>use_last_self_attention\<close> and \<open>save_last_self_attention\<close> keep the
  list of modules and leave every module that is not a self-attention layer (class
  \<open>Attention\<close> with \<open>attn1\<close> in its name) exactly as it was, cross-attention layers
  among them; on a self-attention layer they replace the one flag in its processor and
  nothing else.
\<close>

theorem toggles_only_self_attention:
  "(use_last_self_attention unet v = Inr unet' \<longrightarrow>
      length unet' = length unet \<and>
      (\<forall>j < length unet.
         (\<not> is_attn1 (unet ! j) \<longrightarrow> unet' ! j = unet ! j) \<and>
         (is_attn1 (unet ! j) \<longrightarrow>
            (\<exists>p. processor (unet ! j) = Some p \<and>
                 unet' ! j = (unet ! j)\<lparr>processor := Some (p\<lparr>use_last_attn_slice := v\<rparr>)\<rparr>)))) \<and>
   (save_last_self_attention unet v = Inr unet'' \<longrightarrow>
      length unet'' = length unet \<and>
      (\<forall>j < length unet.
         (\<not> is_attn1 (unet ! j) \<longrightarrow> unet'' ! j = unet ! j) \<and>
         (is_attn1 (unet ! j) \<longrightarrow>
            (\<exists>p. processor (unet ! j) = Some p \<and>
                 unet'' ! j = (unet ! j)\<lparr>processor := Some (p\<lparr>save_last_attn_slice := v\<rparr>)\<rparr>))))"
proof (rule conjI; rule impI)
  assume "use_last_self_attention unet v = Inr unet'"
  then show "length unet' = length unet \<and>
      (\<forall>j < length unet.
         (\<not> is_attn1 (unet ! j) \<longrightarrow> unet' ! j = unet ! j) \<and>
         (is_attn1 (unet ! j) \<longrightarrow>
            (\<exists>p. processor (unet ! j) = Some p \<and>
                 unet' ! j = (unet ! j)\<lparr>processor := Some (p\<lparr>use_last_attn_slice := v\<rparr>)\<rparr>)))"
    unfolding use_last_self_attention_def
    by (rule toggle_effect [where upd = "\<lambda>p. p\<lparr>use_last_attn_slice := v\<rparr>"])
next
  assume "save_last_self_attention unet v = Inr unet''"
  then show "length unet'' = length unet \<and>
      (\<forall>j < length unet.
         (\<not> is_attn1 (unet ! j) \<longrightarrow> unet'' ! j = unet ! j) \<and>
         (is_attn1 (unet ! j) \<longrightarrow>
            (\<exists>p. processor (unet ! j) = Some p \<and>
                 unet'' ! j = (unet ! j)\<lparr>processor := Some (p\<lparr>save_last_attn_slice := v\<rparr>)\<rparr>)))"
    unfolding save_last_self_attention_def
    by (rule toggle_effect [where upd = "\<lambda>p. p\<lparr>save_last_attn_slice := v\<rparr>"])
qed

lemma example_unet_use:
  "use_last_self_attention example_unet True =
     Inr (example_unet[0 := (example_unet ! 0)\<lparr>processor := Some (fresh_cell\<lparr>use_last_attn_slice := True\<rparr>)\<rparr>])"
  by (simp add: use_last_self_attention_def example_unet_def set_processor_field_def ebind_def)

lemma example_unet_save:
  "save_last_self_attention example_unet True =
     Inr (example_unet[0 := (example_unet ! 0)\<lparr>processor := Some (fresh_cell\<lparr>save_last_attn_slice := True\<rparr>)\<rparr>])"
  by (simp add: save_last_self_attention_def example_unet_def set_processor_field_def ebind_def)

theorem toggles_only_self_attention_witness:
  "(\<exists>u. use_last_self_attention example_unet True = Inr u \<and> length u = 3 \<and>
        \<not> is_attn1 (example_unet ! 2) \<and> u ! 2 = example_unet ! 2 \<and>
        \<not> is_attn1 (example_unet ! 1) \<and> u ! 1 = example_unet ! 1 \<and>
        is_attn1 (example_unet ! 0) \<and>
        processor (u ! 0) = Some (fresh_cell\<lparr>use_last_attn_slice := True\<rparr>)) \<and>
   (\<exists>u. save_last_self_attention example_unet True = Inr u \<and> length u = 3 \<and>
        u ! 2 = example_unet ! 2 \<and> u ! 1 = example_unet ! 1 \<and>
        processor (u ! 0) = Some (fresh_cell\<lparr>save_last_attn_slice := True\<rparr>))"
proof -
  let ?u = "example_unet[0 := (example_unet ! 0)\<lparr>processor := Some (fresh_cell\<lparr>use_last_attn_slice := True\<rparr>)\<rparr>]"
  let ?s = "example_unet[0 := (example_unet ! 0)\<lparr>processor := Some (fresh_cell\<lparr>save_last_attn_slice := True\<rparr>)\<rparr>]"
  have len: "length example_unet = 3"
    by (simp add: example_unet_def)
  have cls: "\<not> is_attn1 (example_unet ! 2)" "\<not> is_attn1 (example_unet ! 1)" "is_attn1 (example_unet ! 0)"
    by (simp_all add: example_unet_def is_attn1_def)
  have p0: "processor (example_unet ! 0) = Some fresh_cell"
    by (simp add: example_unet_def)
  from toggles_only_self_attention [of example_unet True ?u ?s] example_unet_use example_unet_save
  have all: "length ?u = length example_unet \<and>
      (\<forall>j < length example_unet.
         (\<not> is_attn1 (example_unet ! j) \<longrightarrow> ?u ! j = example_unet ! j) \<and>
         (is_attn1 (example_unet ! j) \<longrightarrow>
            (\<exists>p. processor (example_unet ! j) = Some p \<and>
                 ?u ! j = (example_unet ! j)\<lparr>processor := Some (p\<lparr>use_last_attn_slice := True\<rparr>)\<rparr>)))"
    and alls: "length ?s = length example_unet \<and>
      (\<forall>j < length example_unet.
         (\<not> is_attn1 (example_unet ! j) \<longrightarrow> ?s ! j = example_unet ! j) \<and>
         (is_attn1 (example_unet ! j) \<longrightarrow>
            (\<exists>p. processor (example_unet ! j) = Some p \<and>
                 ?s ! j = (example_unet ! j)\<lparr>processor := Some (p\<lparr>save_last_attn_slice := True\<rparr>)\<rparr>)))"
    by blast+
  from all len cls have u2: "?u ! 2 = example_unet ! 2" and u1: "?u ! 1 = example_unet ! 1"
    by simp_all
  from all len cls p0 have u0: "processor (?u ! 0) = Some (fresh_cell\<lparr>use_last_attn_slice := True\<rparr>)"
    by simp
  from alls len cls have s2: "?s ! 2 = example_unet ! 2" and s1: "?s ! 1 = example_unet ! 1"
    by simp_all
  from alls len cls p0 have s0: "processor (?s ! 0) = Some (fresh_cell\<lparr>save_last_attn_slice := True\<rparr>)"
    by simp
  show ?thesis
    using example_unet_use example_unet_save len cls u2 u1 u0 s2 s1 s0 by simp
qed

section \<open>The injection function\<close>

text \<open>
  Claim C6. A processor that holds no cached slice returns the query and key objects it
  was given, no blend vector and no secondary key, and writes nothing into the store,
  whatever its two flags are. (With the save flag set it then keeps the pair.)
\<close>

theorem get_qk_without_slice:
  "last_attn_slice c = None \<Longrightarrow>
   get_qk h c query key =
     Inr (h,
          (if save_last_attn_slice c
           then c\<lparr>last_attn_slice := Some (query, key), save_last_attn_slice := False\<rparr>
           else c),
          (query, key, None, None))"
  by (simp add: get_qk_def Let_def)

theorem get_qk_without_slice_witness:
  "last_attn_slice (fresh_cell\<lparr>use_last_attn_slice := True, save_last_attn_slice := True\<rparr>) = None \<and>
   get_qk example_heap (fresh_cell\<lparr>use_last_attn_slice := True, save_last_attn_slice := True\<rparr>) 0 1 =
     Inr (example_heap,
          fresh_cell\<lparr>use_last_attn_slice := True, last_attn_slice := Some (0, 1)\<rparr>,
          (0, 1, None, None))"
  using get_qk_without_slice
    [of "fresh_cell\<lparr>use_last_attn_slice := True, save_last_attn_slice := True\<rparr>" example_heap 0 1]
  by (simp add: fresh_cell_def)

text \<open>Case B writes into the query object only.\<close>

lemma inject_rows_frame:
  "inject_rows h query query_list bd ad is = Inr h' \<Longrightarrow> a \<noteq> query \<Longrightarrow> h' a = h a"
proof (induction "is" arbitrary: h)
  case Nil
  then show ?case by simp
next
  case (Cons i "is")
  from Cons.prems(1) obtain q' where
    rest: "inject_rows (h(query := q')) query query_list bd ad is = Inr h'"
    by (auto simp: ebind_Inr_iff)
  from Cons.IH [OF rest Cons.prems(2)] Cons.prems(2) show ?case
    by simp
qed

lemma case_B_frame:
  "case_B h c query query_list q_old k_old = Inr h' \<Longrightarrow> a \<noteq> query \<Longrightarrow> h' a = h a"
  by (auto simp: case_B_def ebind_Inr_iff split: if_splits option.splits dest: inject_rows_frame)

text \<open>
  Claim C3. After a call with the save flag set, the flag is cleared and the cached
  slice is the pair of tensor objects that was passed in, whatever slice was cached
  before; they are also the two objects the call returns. No object but the query is
  written to, and without the use flag the store is unchanged: the cached key has the
  contents it was passed with, and the cached query is the passed object with whatever
  Case B wrote into it during the same call.
\<close>

theorem get_qk_single_shot_save:
  assumes "get_qk h c query key = Inr (h', c', r)" and "save_last_attn_slice c"
  shows "\<not> save_last_attn_slice c' \<and> last_attn_slice c' = Some (query, key) \<and>
         fst r = query \<and> fst (snd r) = key \<and>
         (\<forall>a. a \<noteq> query \<longrightarrow> h' a = h a) \<and>
         (\<not> use_last_attn_slice c \<longrightarrow> h' = h)"
  using assms
  by (auto simp: get_qk_def Let_def ebind_Inr_iff split: if_splits option.splits prod.splits
      dest: case_B_frame)

lemma example_call_B:
  "get_qk example_heap example_cell_B 0 1 =
     Inr (example_heap(0 := \<lparr>shape = [2, 2, 2], vals = [21, 22, 23, 24, 25, 26, 27, 28]\<rparr>),
          example_cell_B\<lparr>last_attn_slice := Some (0, 1), save_last_attn_slice := False\<rparr>,
          (0, 1, None, None))"
  by (simp add: get_qk_def case_A_def case_B_def example_heap_def example_cell_B_def clone_def
      shape_at_def getitem_def setitem_def tab_def tget_def expandable_def bc_index_def
      slice_start_def slice_stop_def upt_rec)

theorem get_qk_single_shot_save_witness:
  "\<exists>h' c' r. get_qk example_heap example_cell_B 0 1 = Inr (h', c', r) \<and>
      save_last_attn_slice example_cell_B \<and> last_attn_slice example_cell_B = Some (2, 3) \<and>
      \<not> save_last_attn_slice c' \<and> last_attn_slice c' = Some (0, 1) \<and>
      h' 1 = example_heap 1 \<and> h' 0 \<noteq> example_heap 0"
proof -
  let ?h = "example_heap(0 := \<lparr>shape = [2, 2, 2], vals = [21, 22, 23, 24, 25, 26, 27, 28]\<rparr>)"
  let ?c = "example_cell_B\<lparr>last_attn_slice := Some (0, 1), save_last_attn_slice := False\<rparr>"
  have s: "save_last_attn_slice example_cell_B" and l: "last_attn_slice example_cell_B = Some (2, 3)"
    by (simp_all add: example_cell_B_def)
  note th = get_qk_single_shot_save [OF example_call_B s]
  from th have f: "\<not> save_last_attn_slice ?c" and p: "last_attn_slice ?c = Some (0, 1)"
    by blast+
  from th have "\<forall>a. a \<noteq> 0 \<longrightarrow> ?h a = example_heap a"
    by blast
  then have k: "?h 1 = example_heap 1"
    by (rule allE) simp
  have q: "?h 0 \<noteq> example_heap 0"
    by (simp add: example_heap_def)
  from example_call_B s l f p k q show ?thesis
    by blast
qed

text \<open>
  Claim C2. Whenever the call takes Case A (use flag set, a slice cached, the query's
  sequence length equal to \<open>num_frames\<close>, query and key of one shape), the blend vector
  it returns has \<open>num_frames\<close> entries, entry \<open>i\<close> being \<open>1 + lambda * (i / 50)\<close>: it
  depends on \<open>lambda\<close> and \<open>num_frames\<close> only, not on the tensors or the cached slice.
\<close>

theorem get_qk_blend_vector:
  assumes "get_qk h c query key = Inr (h', c', (q', k', d_l, key1))"
    and "use_last_attn_slice c" and "last_attn_slice c = Some sl"
    and "shape_at (h query) 1 = Inr n" and "num_frames c = Some n"
    and "shape (h query) = shape (h key)"
    and "LAMBDA c = Some lam"
  shows "d_l = Some \<lparr>shape = [n], vals = map (\<lambda>i. 1 + lam * (real i / 50)) [0..<n]\<rparr>"
  using assms
  by (cases sl) (auto simp: get_qk_def case_A_def Let_def ebind_Inr_iff split: if_splits)

lemma example_call_A:
  "get_qk example_heap example_cell_A 0 1 =
     Inr (example_heap,
          example_cell_A\<lparr>last_attn_slice := Some (0, 1), save_last_attn_slice := False\<rparr>,
          (0, 1, Some \<lparr>shape = [2], vals = [1, 101 / 100]\<rparr>,
           Some \<lparr>shape = [2, 2, 2], vals = [31, 32, 13, 14, 35, 36, 17, 18]\<rparr>))"
  by (simp add: get_qk_def case_A_def case_B_def example_heap_def example_cell_A_def clone_def
      shape_at_def getitem_def setitem_def tab_def tget_def expandable_def bc_index_def
      slice_start_def slice_stop_def upt_rec)

theorem get_qk_blend_vector_witness:
  "\<exists>h' c' q' k' key1.
      get_qk example_heap example_cell_A 0 1 =
        Inr (h', c', (q', k', Some \<lparr>shape = [2], vals = map (\<lambda>i. 1 + (1 / 2) * (real i / 50)) [0..<2]\<rparr>, key1)) \<and>
      use_last_attn_slice example_cell_A \<and> last_attn_slice example_cell_A = Some (2, 3) \<and>
      shape_at (example_heap 0) 1 = Inr 2 \<and> num_frames example_cell_A = Some 2 \<and>
      shape (example_heap 0) = shape (example_heap 1) \<and> LAMBDA example_cell_A = Some (1 / 2)"
proof -
  have facts: "use_last_attn_slice example_cell_A" "last_attn_slice example_cell_A = Some (2, 3)"
    "shape_at (example_heap 0) 1 = Inr 2" "num_frames example_cell_A = Some 2"
    "shape (example_heap 0) = shape (example_heap 1)" "LAMBDA example_cell_A = Some (1 / 2)"
    by (simp_all add: example_cell_A_def example_heap_def shape_at_def)
  from get_qk_blend_vector [OF example_call_A facts]
  have "Some \<lparr>shape = [2], vals = [1, 101 / 100 :: real]\<rparr> =
        Some \<lparr>shape = [2], vals = map (\<lambda>i. 1 + (1 / 2) * (real i / 50)) [0..<2]\<rparr>" .
  with example_call_A facts show ?thesis
    by simp
qed

section \<open>The attention arithmetic on the tensors the processor passes\<close>

lemma blend_call:
  "get_qk blend_heap blend_cell 0 1 =
     Inr (blend_heap, blend_cell,
          (0, 1, Some \<lparr>shape = [2], vals = [1, 101 / 100]\<rparr>,
           Some \<lparr>shape = [1, 2, 1], vals = [7, 5]\<rparr>))"
  by (simp add: get_qk_def case_A_def case_B_def blend_heap_def blend_cell_def clone_def
      shape_at_def getitem_def setitem_def tab_def tget_def expandable_def bc_index_def
      slice_start_def slice_stop_def upt_rec)

lemma blend_split_heads:
  "split_heads \<lparr>shape = [1, 2, 1], vals = [a, b]\<rparr> 1 1 1 = Inr \<lparr>shape = [1, 1, 2, 1], vals = [a, b]\<rparr>"
  by (simp add: split_heads_def reshape_def infer_shape_def transpose_def permute_def
      tab_def tget_def upt_rec)

text \<open>
  The source function on operands of three dimensions \<open>[batch * heads, sequence,
  head_dim]\<close>: there the subscript \<open>[:, :len(d_l), 0]\<close> selects, for each query frame,
  the logit against key position 0, and the result is the specified one.
\<close>

lemma logits_rank3_as_specified:
  "attention_logits \<lparr>shape = [1, 2, 1], vals = [1, 2]\<rparr> \<lparr>shape = [1, 2, 1], vals = [3, 5]\<rparr> 1
     (Some \<lparr>shape = [1, 2, 1], vals = [7, 5]\<rparr>) (Some \<lparr>shape = [2], vals = [1, 101 / 100]\<rparr>) =
     Inr \<lparr>shape = [1, 2, 2], vals = [7, 5, 707 / 50, 10]\<rparr> \<and>
   specified_logits \<lparr>shape = [1, 2, 1], vals = [1, 2]\<rparr> \<lparr>shape = [1, 2, 1], vals = [3, 5]\<rparr> 1
     \<lparr>shape = [1, 2, 1], vals = [7, 5]\<rparr> \<lparr>shape = [2], vals = [1, 101 / 100]\<rparr> =
     Inr \<lparr>shape = [1, 2, 2], vals = [7, 5, 707 / 50, 10]\<rparr>"
  by (simp add: attention_logits_def specified_logits_def transpose_last2_def transpose_def
      permute_def matmul_def bc_shape_def getitem_def setitem_def binop_def scalar_def
      len_tensor_def expandable_def bc_index_def slice_start_def slice_stop_def tab_def tget_def
      Let_def upt_rec)

text \<open>
  Claim C1, at the call of the example: two frames, one head, query \<open>[1, 2]\<close>, key
  \<open>[3, 5]\<close>, secondary key \<open>[7, 5]\<close> and blend vector \<open>[1, 1.01]\<close> as \<open>get_qk\<close>
  returns them. The processor passes tensors of four dimensions, so the subscript
  \<open>[:, :len(d_l), 0]\<close> selects heads below \<open>len(d_l)\<close> and query position 0: the
  logits of query frame 0 are replaced against every key position \<open>s\<close> by the secondary
  similarity times \<open>d_l[s]\<close> (here \<open>5 * 1.01\<close> at key position 1), and the logit of
  query frame 1 against key position 0 stays the primary \<open>2 * 3 = 6\<close>, where the
  specified value is \<open>2 * 7 * 1.01\<close>.
\<close>

theorem blend_at_call_site_differs:
  "get_qk blend_heap blend_cell 0 1 =
     Inr (blend_heap, blend_cell,
          (0, 1, Some \<lparr>shape = [2], vals = [1, 101 / 100]\<rparr>,
           Some \<lparr>shape = [1, 2, 1], vals = [7, 5]\<rparr>)) \<and>
   attend_logits 1 1 1 (blend_heap 0) (blend_heap 1)
       \<lparr>shape = [2], vals = [1, 101 / 100]\<rparr> \<lparr>shape = [1, 2, 1], vals = [7, 5]\<rparr> =
     Inr \<lparr>shape = [1, 1, 2, 2], vals = [7, 101 / 20, 6, 10]\<rparr> \<and>
   specified_logits \<lparr>shape = [1, 1, 2, 1], vals = [1, 2]\<rparr> \<lparr>shape = [1, 1, 2, 1], vals = [3, 5]\<rparr> 1
       \<lparr>shape = [1, 1, 2, 1], vals = [7, 5]\<rparr> \<lparr>shape = [2], vals = [1, 101 / 100]\<rparr> =
     Inr \<lparr>shape = [1, 1, 2, 2], vals = [7, 5, 707 / 50, 10]\<rparr>"
proof (intro conjI)
  show "get_qk blend_heap blend_cell 0 1 =
     Inr (blend_heap, blend_cell,
          (0, 1, Some \<lparr>shape = [2], vals = [1, 101 / 100]\<rparr>,
           Some \<lparr>shape = [1, 2, 1], vals = [7, 5]\<rparr>))"
    by (rule blend_call)
next
  show "attend_logits 1 1 1 (blend_heap 0) (blend_heap 1)
       \<lparr>shape = [2], vals = [1, 101 / 100]\<rparr> \<lparr>shape = [1, 2, 1], vals = [7, 5]\<rparr> =
     Inr \<lparr>shape = [1, 1, 2, 2], vals = [7, 101 / 20, 6, 10]\<rparr>"
    by (simp add: attend_logits_def blend_heap_def split_heads_def reshape_def infer_shape_def size_neg_def
        attention_logits_def transpose_last2_def transpose_def
        permute_def matmul_def bc_shape_def getitem_def setitem_def binop_def scalar_def
        len_tensor_def expandable_def bc_index_def slice_start_def slice_stop_def tab_def tget_def
        Let_def upt_rec)
next
  show "specified_logits \<lparr>shape = [1, 1, 2, 1], vals = [1, 2]\<rparr> \<lparr>shape = [1, 1, 2, 1], vals = [3, 5]\<rparr> 1
       \<lparr>shape = [1, 1, 2, 1], vals = [7, 5]\<rparr> \<lparr>shape = [2], vals = [1, 101 / 100]\<rparr> =
     Inr \<lparr>shape = [1, 1, 2, 2], vals = [7, 5, 707 / 50, 10]\<rparr>"
    by (simp add: specified_logits_def transpose_last2_def transpose_def
        permute_def matmul_def bc_shape_def scalar_def
        len_tensor_def bc_index_def tab_def tget_def Let_def upt_rec)
qed

section \<open>Shapes\<close>

text \<open>What a successful tensor operation says about the shapes involved.\<close>

lemma index_shape_error: "index_shape ixs s = Inl e \<Longrightarrow> e = IndexError"
  by (induction ixs s rule: index_shape.induct) (auto simp: ebind_def split: if_splits sum.splits)

lemma getitem_shape: "getitem t ixs = Inr r \<Longrightarrow> index_shape ixs (shape t) = Inr (shape r)"
  by (auto simp: getitem_def ebind_Inr_iff)

lemma setitem_shape: "setitem t ixs rhs = Inr r \<Longrightarrow> shape r = shape t"
  by (auto simp: setitem_def ebind_Inr_iff split: if_splits)

lemma setitem_scalar_error: "setitem t ixs (scalar x) = Inl e \<Longrightarrow> e = IndexError"
  by (cases "index_shape ixs (shape t)")
     (auto simp: setitem_def scalar_def expandable_def dest: index_shape_error)

lemma length5: "length s = 5 \<Longrightarrow> \<exists>a b c d e. s = [a, b, c, d, e]"
  by (auto simp: numeral_eq_Suc length_Suc_conv)

lemma permute_02134:
  assumes "permute t [0, 2, 1, 3, 4] = Inr r"
  shows "\<exists>a b c d e. shape t = [a, b, c, d, e] \<and> shape r = [a, c, b, d, e]"
proof -
  from assms have s: "sort [0, 2, 1, 3, 4] = [0..<length (shape t)]"
    and r: "shape r = map (\<lambda>d. shape t ! d) [0, 2, 1, 3, 4]"
    by (auto simp: permute_def Let_def split: if_splits)
  from s have "length (sort [0::nat, 2, 1, 3, 4]) = length [0..<length (shape t)]"
    by simp
  then have "length (shape t) = 5"
    by simp
  then obtain a b c d e where "shape t = [a, b, c, d, e]"
    using length5 by blast
  with r show ?thesis
    by simp
qed

lemma permute_02134_ok:
  "shape t = [a, b, c, d, e] \<Longrightarrow> \<exists>r. permute t [0, 2, 1, 3, 4] = Inr r \<and> shape r = [a, c, b, d, e]"
  by (simp add: permute_def Let_def upt_rec)

lemma reshape_shape: "reshape t spec = Inr r \<Longrightarrow> infer_shape spec (prod_list (shape t)) = Inr (shape r)"
  by (auto simp: reshape_def ebind_Inr_iff)

lemma infer_shape_length: "infer_shape spec n = Inr s \<Longrightarrow> length s = length spec"
  by (auto simp: infer_shape_def Let_def split: if_splits)

lemma infer_shape_nth:
  "infer_shape spec n = Inr s \<Longrightarrow> k < length spec \<Longrightarrow> spec ! k = Some m \<Longrightarrow> s ! k = m"
  by (auto simp: infer_shape_def Let_def split: if_splits)

lemma unsqueeze0_shape: "unsqueeze0 t = Inr r \<Longrightarrow> shape r = 1 # shape t"
  by (auto simp: unsqueeze0_def split: if_splits)

lemma index_shape_frame_slice:
  "index_shape (frame_slice x y) [a, b, c, d, e] = Inr [a, b, slice_stop y c - slice_start x c, d, e]"
  by (simp add: frame_slice_def slice_start_def slice_stop_def)

section \<open>The step driver past the inversion cutoff\<close>




section \<open>The pipeline call before the loop\<close>

lemma prepare_call_collab:
  "prepare_call (E\<lparr>unet_forward := uf, scheduler_step := ss, scale_model_input := sm\<rparr>) u a = prepare_call E u a"
  by (simp add: prepare_call_def call_height_def call_width_def)

lemma seed_latents_mismatch:
  assumes "shape_at latents 0 \<noteq> shape_at inv_latents 0"
  shows "seed_latents nf latents inv_latents = Inl AssertionError \<or>
         seed_latents nf latents inv_latents = Inl IndexError"
proof (cases "setitem (zeros (shape latents)) (frame_at 0) (scalar 1)")
  case (Inl e)
  then have "e = IndexError"
    by (rule setitem_scalar_error)
  with Inl show ?thesis
    by (simp add: seed_latents_def)
next
  case (Inr mask_in)
  show ?thesis
  proof (cases "shape_at latents 0")
    case (Inl e)
    then show ?thesis
      using Inr by (simp add: seed_latents_def shape_at_def split: if_splits)
  next
    case b: (Inr b)
    show ?thesis
    proof (cases "shape_at inv_latents 0")
      case (Inl e)
      then show ?thesis
        using Inr b by (simp add: seed_latents_def shape_at_def split: if_splits)
    next
      case (Inr b')
      with assms b have "b \<noteq> b'"
        by simp
      with Inr b \<open>setitem (zeros (shape latents)) (frame_at 0) (scalar 1) = Inr mask_in\<close>
      show ?thesis
        by (simp add: seed_latents_def)
    qed
  qed
qed

text \<open>
  Claim C9. When the two prepared latent tensors disagree in their batch size, the call
  raises: the assertion fails (or, for generation latents without a frame to index, the
  frame mask before it does). The statements that raise stand before the loop, and the
  outcome is the same whatever the network and the scheduler are, so no denoising step
  has run and nothing is returned.
\<close>

theorem batch_mismatch_raises_before_loop:
  assumes "prepare_call E u a = Inr p"
    and "shape_at (p_latents p) 0 \<noteq> shape_at (p_inv_latents p) 0"
  shows "\<exists>e. (e = AssertionError \<or> e = IndexError) \<and> pipeline_call E u a = Inl e \<and>
     (\<forall>uf ss sm. pipeline_call (E\<lparr>unet_forward := uf, scheduler_step := ss, scale_model_input := sm\<rparr>) u a = Inl e)"
  using assms seed_latents_mismatch [OF assms(2), of "frames_arg a"]
  by (auto simp: pipeline_call_def prepare_call_collab)

lemma mismatched_prepare: "prepare_call stub stub_unet mismatched_args = Inr mismatched_prepared"
  by code_simp

theorem batch_mismatch_raises_before_loop_witness:
  "prepare_call stub stub_unet mismatched_args = Inr mismatched_prepared \<and>
   shape_at (p_latents mismatched_prepared) 0 = Inr 2 \<and>
   shape_at (p_inv_latents mismatched_prepared) 0 = Inr 1 \<and>
   pipeline_call stub stub_unet mismatched_args = Inl AssertionError"
proof -
  have l: "shape_at (p_latents mismatched_prepared) 0 = Inr 2"
    and i: "shape_at (p_inv_latents mismatched_prepared) 0 = Inr 1"
    by (simp_all add: mismatched_prepared_def shape_at_def)
  then have ne: "shape_at (p_latents mismatched_prepared) 0 \<noteq> shape_at (p_inv_latents mismatched_prepared) 0"
    by simp
  from batch_mismatch_raises_before_loop [OF mismatched_prepare ne]
  obtain e where e: "e = AssertionError \<or> e = IndexError"
    and r: "pipeline_call stub stub_unet mismatched_args = Inl e"
    by blast
  have "pipeline_call stub stub_unet mismatched_args \<noteq> Inl IndexError"
    by code_simp
  with e r have "pipeline_call stub stub_unet mismatched_args = Inl AssertionError"
    by auto
  with mismatched_prepare l i show ?thesis
    by simp
qed

section \<open>The shrinking window of the inversion branch\<close>

lemma unpack5_shape: "unpack5 t = Inr (a, b, c, d, e) \<longleftrightarrow> shape t = [a, b, c, d, e]"
  by (auto simp: unpack5_def split: list.splits)

lemma batch_to_frames_shape:
  assumes "batch_to_frames x (Some bsz # Some frames # spec) = Inr r"
  shows "\<exists>c d e. shape r = [bsz, c, frames, d, e]"
proof -
  from assms obtain un v where v: "reshape un (Some bsz # Some frames # spec) = Inr v"
    and p: "permute v [0, 2, 1, 3, 4] = Inr r"
    by (auto simp: batch_to_frames_def ebind_Inr_iff)
  from permute_02134 [OF p] obtain a b c d e where
    sv: "shape v = [a, b, c, d, e]" and sr: "shape r = [a, c, b, d, e]"
    by blast
  have "shape v ! 0 = bsz" "shape v ! 1 = frames"
    using infer_shape_nth [OF reshape_shape [OF v]] by simp_all
  with sv sr show ?thesis
    by simp
qed

lemma inversion_branch_frames:
  assumes "inversion_branch E u inv_latents inv_in t ne cak uncond gs = Inr (nnp, inv', u')"
  shows "\<exists>a b c d e b' d' e'. shape inv_latents = [a, b, c, d, e] \<and> shape inv' = [a, b', c, d', e']"
  using assms
  by (auto simp: inversion_branch_def ebind_Inr_iff unpack5_shape dest!: batch_to_frames_shape)

lemma call_network_frames:
  assumes "call_network E u neg pe latents inv_latents t i ne cak cfg gs = Inr (out, u')"
    and "shape inv_latents = [a, b, c, d, e]"
  shows "\<exists>b' d' e'. shape (out_inv_latents out) = [a, b', c, d', e']"
proof (cases "i \<le> TAU_2")
  case True
  with assms(1) have "\<exists>u1 inv_in uncond nnp u2.
      inversion_branch E u1 inv_latents inv_in t ne cak uncond gs = Inr (nnp, out_inv_latents out, u2)"
    by (auto simp: call_network_def ebind_Inr_iff) blast
  then obtain u1 inv_in uncond nnp u2 where
    "inversion_branch E u1 inv_latents inv_in t ne cak uncond gs = Inr (nnp, out_inv_latents out, u2)"
    by blast
  from inversion_branch_frames [OF this] assms(2) show ?thesis
    by simp
next
  case False
  with assms show ?thesis
    by (auto simp: call_network_def ebind_Inr_iff)
qed

lemma not_altered: "int i \<notin> set iters_to_alter"
  by (simp add: iters_to_alter_def)

lemma shrink_window_shape:
  assumes "shape inv_latents = [s0, s1, s2, s3, s4]" and "max 1 (nf - i) \<le> s2"
  shows "\<exists>r. shrink_window nf i inv_latents = Inr r \<and> shape r = [s0, s1, max 1 (nf - i), s3, s4]"
  using assms
  by (simp add: shrink_window_def Let_def getitem_def index_shape_frame_slice slice_start_def slice_stop_def)

lemma loop_body_frames:
  assumes "loop_body E a p i t (latents, inv_latents, u) = Inr (latents', inv', u')"
    and "shape inv_latents = [s0, s1, s2, s3, s4]"
    and "max 1 (frames_arg a - i) \<le> s2"
  shows "\<exists>b' d' e'. shape inv' = [s0, b', max 1 (frames_arg a - i), d', e']"
proof -
  from assms(1) have "\<exists>sliced out.
      shrink_window (frames_arg a) i inv_latents = Inr sliced \<and>
      call_network E u (p_negative_prompt_embeds p) (p_prompt_embeds p) latents sliced t i
        (p_null_embeds p) (cross_attention_kwargs a) (p_do_cfg p) (guidance_scale_arg a) = Inr (out, u') \<and>
      inv' = out_inv_latents out"
    by (auto simp: loop_body_def Let_def ebind_Inr_iff not_altered split: if_splits)
  then obtain sliced out where
    g: "shrink_window (frames_arg a) i inv_latents = Inr sliced"
    and c: "call_network E u (p_negative_prompt_embeds p) (p_prompt_embeds p) latents sliced t i
              (p_null_embeds p) (cross_attention_kwargs a) (p_do_cfg p) (guidance_scale_arg a) = Inr (out, u')"
    and o: "inv' = out_inv_latents out"
    by blast
  from shrink_window_shape [OF assms(2,3)] g
  have "shape sliced = [s0, s1, max 1 (frames_arg a - i), s3, s4]"
    by auto
  from call_network_frames [OF c this] o show ?thesis
    by simp
qed

lemma denoise_loop_frames:
  assumes "denoise_loop E a p i ts (latents, inv_latents, u) = Inr (latents', inv', u')"
    and "shape inv_latents = [s0, s1, s2, s3, s4]"
    and "max 1 (frames_arg a - i) \<le> s2"
  shows "\<exists>b' c' d' e'. shape inv' = [s0, b', c', d', e'] \<and> max 1 (frames_arg a - (i + length ts)) \<le> c'"
  using assms
proof (induction ts arbitrary: i latents inv_latents u s1 s2 s3 s4)
  case Nil
  then show ?case
    by simp
next
  case (Cons t ts)
  from Cons.prems(1) obtain l1 i1 u1 where
    b: "loop_body E a p i t (latents, inv_latents, u) = Inr (l1, i1, u1)"
    and r: "denoise_loop E a p (Suc i) ts (l1, i1, u1) = Inr (latents', inv', u')"
    by (auto simp: ebind_Inr_iff)
  from loop_body_frames [OF b Cons.prems(2,3)] obtain b' d' e' where
    s: "shape i1 = [s0, b', max 1 (frames_arg a - i), d', e']"
    by blast
  have "max 1 (frames_arg a - Suc i) \<le> max 1 (frames_arg a - i)"
    by simp
  from Cons.IH [OF r s this] show ?case
    by simp
qed

lemma denoise_loop_append:
  "denoise_loop E a p i (ts @ us) s = ebind (denoise_loop E a p i ts s) (denoise_loop E a p (i + length ts) us)"
  by (induction ts arbitrary: i s) (auto simp: ebind_def split: sum.splits)


lemma seed_latents_inv_shape:
  assumes "seed_latents nf latents inv_latents = Inr (lat0, inv0)"
    and "shape inv_latents = [b, c, f0, h, w]"
  shows "shape inv0 = [b, c, nf * f0, h, w]"
  using assms
  by (auto simp: seed_latents_def ebind_Inr_iff repeat_tensor_def Let_def split: if_splits)

text \<open>
  Claim C4. Take a run whose inversion latents have at least one frame when they are
  seeded and whose frame count \<open>F\<close> is at least 1. After any \<open>i\<close> completed rounds
  of the loop, the window that round \<open>i\<close> cuts from the inversion latents, which is
  what the optimizer and the step driver of that round receive, has \<open>max(1, F - i)\<close>
  frames; the sequence does not increase.
\<close>

theorem inversion_window_shrinks:
  assumes "seed_latents (frames_arg a) latents inv_latents = Inr (lat0, inv0)"
    and "shape inv_latents = [b, c, f0, h, w]" and "1 \<le> f0" and "1 \<le> frames_arg a"
    and "denoise_loop E a p 0 done (lat0, inv0, u0) = Inr (lat_i, inv_i, u_i)"
    and "i = length done"
  shows "\<exists>window. shrink_window (frames_arg a) i inv_i = Inr window \<and>
           shape_at window 2 = Inr (max 1 (frames_arg a - i)) \<and>
           max 1 (frames_arg a - Suc i) \<le> max 1 (frames_arg a - i)"
proof -
  have s0: "shape inv0 = [b, c, frames_arg a * f0, h, w]"
    using assms(1,2) by (rule seed_latents_inv_shape)
  have "frames_arg a * 1 \<le> frames_arg a * f0"
    using assms(3) by (intro mult_le_mono2)
  with assms(4) have "max 1 (frames_arg a - 0) \<le> frames_arg a * f0"
    by simp
  from denoise_loop_frames [OF assms(5) s0 this] assms(6)
  obtain b' c' d' e' where si: "shape inv_i = [b, b', c', d', e']"
    and le: "max 1 (frames_arg a - i) \<le> c'"
    by auto
  from shrink_window_shape [OF si le] show ?thesis
    by (auto simp: shape_at_def)
qed

lemma stub_seed:
  "seed_latents (frames_arg stub_args) (p_latents stub_prepared) (p_inv_latents stub_prepared) =
     Inr (seeded_latents, seeded_inv_latents)"
  by code_simp

lemma stub_two_rounds:
  "denoise_loop stub stub_args stub_prepared 0 [3, 2] (seeded_latents, seeded_inv_latents, p_unet stub_prepared) =
     Inr (seeded_latents, \<lparr>shape = [1, 1, 2, 2, 2], vals = [5, 6, 7, 8, 5, 6, 7, 8]\<rparr>, stepped_unet 8)"
  by code_simp

theorem inversion_window_shrinks_witness:
  "\<exists>window.
     seed_latents (frames_arg stub_args) (p_latents stub_prepared) (p_inv_latents stub_prepared) =
       Inr (seeded_latents, seeded_inv_latents) \<and>
     shape (p_inv_latents stub_prepared) = [1, 1, 1, 2, 2] \<and> frames_arg stub_args = 3 \<and>
     denoise_loop stub stub_args stub_prepared 0 [3, 2] (seeded_latents, seeded_inv_latents, p_unet stub_prepared) =
       Inr (seeded_latents, \<lparr>shape = [1, 1, 2, 2, 2], vals = [5, 6, 7, 8, 5, 6, 7, 8]\<rparr>, stepped_unet 8) \<and>
     shrink_window 3 2 \<lparr>shape = [1, 1, 2, 2, 2], vals = [5, 6, 7, 8, 5, 6, 7, 8]\<rparr> = Inr window \<and>
     shape_at window 2 = Inr 1"
proof -
  have sh: "shape (p_inv_latents stub_prepared) = [1, 1, 1, 2, 2]"
    by (simp add: stub_prepared_def mismatched_prepared_def)
  have f: "frames_arg stub_args = 3"
    by (simp add: stub_args_def)
  have one: "(1::nat) \<le> 1" and fr: "1 \<le> frames_arg stub_args" and len: "2 = length [3::nat, 2]"
    by (simp_all add: f)
  from inversion_window_shrinks [OF stub_seed sh one fr stub_two_rounds len]
  obtain window where
    "shrink_window (frames_arg stub_args) 2 \<lparr>shape = [1, 1, 2, 2, 2], vals = [5, 6, 7, 8, 5, 6, 7, 8]\<rparr> = Inr window"
    and "shape_at window 2 = Inr (max 1 (frames_arg stub_args - 2))"
    by blast
  then have "shrink_window 3 2 \<lparr>shape = [1, 1, 2, 2, 2], vals = [5, 6, 7, 8, 5, 6, 7, 8]\<rparr> = Inr window"
    and "shape_at window 2 = Inr 1"
    by (simp_all add: f)
  with stub_seed sh f stub_two_rounds show ?thesis
    by blast
qed

section \<open>The latent optimizer\<close>


lemma optimizer_rounds_Cons:
  "optimizer_rounds E inv_latents t pe cak nnp (j # js) (lt, opt, u, li) = Inr s' \<longleftrightarrow>
     (\<exists>latent_in loss u2 nv o2.
        optimizer_forward E u inv_latents t pe cak nnp lt = Inr (latent_in, loss, u2) \<and>
        optimizer_rounds E inv_latents t pe cak nnp js (lt\<lparr>vals := nv\<rparr>, o2, u2, Some latent_in) = Inr s' \<and>
        (nv, o2) = adam_step E (1 / 1000) opt (vals lt)
           (autograd E (\<lambda>x. ebind (optimizer_forward E u inv_latents t pe cak nnp x)
                               (\<lambda>(latent_in, loss, u'). Inr loss)) lt))"
  by (auto simp: ebind_Inr_iff Let_def case_prod_beta prod_eq_iff)

lemma optimizer_rounds_shape:
  assumes "optimizer_rounds E inv_latents t pe cak nnp js (lt, opt, u, li) = Inr (lt', opt', u', li')"
  shows "shape lt' = shape lt"
  using assms
proof (induction js arbitrary: lt opt u li)
  case Nil
  then show ?case by simp
next
  case (Cons j js)
  from Cons.prems obtain nv o2 u2 l2 where
    "optimizer_rounds E inv_latents t pe cak nnp js (lt\<lparr>vals := nv\<rparr>, o2, u2, l2) = Inr (lt', opt', u', li')"
    unfolding optimizer_rounds_Cons by blast
  from Cons.IH [OF this] show ?case by simp
qed










section \<open>When the loop runs to its end\<close>

text \<open>Each operation of the step driver succeeds on shapes that fit.\<close>

lemma for_modules_ok:
  assumes "procs_ok ms" and "\<And>m. sel m \<Longrightarrow> class_name m = ''Attention''"
  shows "\<exists>ms'. for_modules (\<lambda>m. if sel m then set_processor_field upd m else Inr m) ms = Inr ms' \<and> procs_ok ms'"
  using assms(1)
proof (induction ms)
  case Nil
  then show ?case by (simp add: procs_ok_def)
next
  case (Cons m ms)
  then obtain ms' where r: "for_modules (\<lambda>m. if sel m then set_processor_field upd m else Inr m) ms = Inr ms'"
    and ok: "procs_ok ms'"
    by (auto simp: procs_ok_def)
  show ?case
  proof (cases "sel m")
    case True
    with assms(2) Cons.prems obtain p where "processor m = Some p"
      by (auto simp: procs_ok_def)
    with True r ok show ?thesis
      by (simp add: set_processor_field_def procs_ok_def)
  next
    case False
    with r ok Cons.prems show ?thesis
      by (simp add: procs_ok_def)
  qed
qed

lemma toggle_use_ok:
  "procs_ok (modules u) \<Longrightarrow>
   \<exists>u'. on_modules (\<lambda>ms. use_last_self_attention ms v) u = Inr u' \<and> procs_ok (modules u')"
  using for_modules_ok [of "modules u" "\<lambda>m. class_name m = ''Attention'' \<and> str_in ''attn1'' (mod_name m)"
      "\<lambda>p. p\<lparr>use_last_attn_slice := v\<rparr>"]
  by (auto simp: on_modules_def use_last_self_attention_def)

lemma toggle_save_ok:
  "procs_ok (modules u) \<Longrightarrow>
   \<exists>u'. on_modules (\<lambda>ms. save_last_self_attention ms v) u = Inr u' \<and> procs_ok (modules u')"
  using for_modules_ok [of "modules u" "\<lambda>m. class_name m = ''Attention'' \<and> str_in ''attn1'' (mod_name m)"
      "\<lambda>p. p\<lparr>save_last_attn_slice := v\<rparr>"]
  by (auto simp: on_modules_def save_last_self_attention_def)

lemma init_params_ok:
  "procs_ok (modules u) \<Longrightarrow>
   \<exists>u'. on_modules (\<lambda>ms. init_attention_params ms nf l b) u = Inr u' \<and> procs_ok (modules u')"
  using for_modules_ok [of "modules u" "\<lambda>m. class_name m = ''Attention''"
      "\<lambda>p. p\<lparr>LAMBDA := l, bs := b, num_frames := nf\<rparr>"]
  by (auto simp: on_modules_def init_attention_params_def)

lemma init_func_ok: "procs_ok (init_attention_func ms)"
  by (auto simp: procs_ok_def init_attention_func_def)

lemma bc_dims_same: "bc_dims s s = Inr s"
  by (induction s) auto

lemma bc_shape_same: "bc_shape s s = Inr s"
  by (simp add: bc_shape_def bc_dims_same)

lemma bc_shape_scalar: "bc_shape [] s = Inr s"
  by (simp add: bc_shape_def)

lemma binop_same: "shape a = shape b \<Longrightarrow> \<exists>r. binop f a b = Inr r \<and> shape r = shape a"
  by (simp add: binop_def bc_shape_same)

lemma binop_scalar: "\<exists>r. binop f (scalar x) b = Inr r \<and> shape r = shape b"
  by (simp add: binop_def scalar_def bc_shape_scalar)

lemma guide_ok:
  assumes "shape a = shape b"
  shows "\<exists>r. guide a b g = Inr r \<and> shape r = shape a"
proof -
  from binop_same [of b a "(-)"] assms obtain d where d: "binop (-) b a = Inr d" "shape d = shape a"
    by auto
  from binop_scalar [of "(*)" g d] d obtain sd where sd: "binop (*) (scalar g) d = Inr sd" "shape sd = shape a"
    by auto
  from binop_same [of a sd "(+)"] sd obtain r where "binop (+) a sd = Inr r" "shape r = shape a"
    by auto
  with d sd show ?thesis
    by (simp add: guide_def)
qed

lemma frames_to_batch_ok:
  assumes "shape x = [a, b, c, d, e]" and "p * q = d * e"
  shows "\<exists>r. frames_to_batch x (a * c) b p q = Inr r \<and> shape r = [a * c, b, p, q]"
proof -
  from permute_02134_ok [OF assms(1)] obtain y where
    y: "permute x [0, 2, 1, 3, 4] = Inr y" "shape y = [a, c, b, d, e]"
    by blast
  have "a * c * b * p * q = a * (c * (b * (d * e)))"
    using assms(2) by (simp add: mult.assoc)
  then have "reshape y [Some (a * c), Some b, Some p, Some q] = Inr (y\<lparr>shape := [a * c, b, p, q]\<rparr>)"
    using y(2) by (simp add: reshape_def infer_shape_def mult.assoc)
  with y show ?thesis
    by (simp add: frames_to_batch_def)
qed

lemma batch_to_frames_ok:
  assumes "shape x = [a * c, b, d, e]"
  shows "\<exists>r. batch_to_frames x [Some a, Some c, Some b, Some d, Some e] = Inr r \<and> shape r = [a, b, c, d, e]"
proof -
  let ?un = "x\<lparr>shape := 1 # shape x\<rparr>"
  have u: "unsqueeze0 x = Inr ?un"
    using assms by (simp add: unsqueeze0_def)
  have "reshape ?un [Some a, Some c, Some b, Some d, Some e] = Inr (?un\<lparr>shape := [a, c, b, d, e]\<rparr>)"
    using assms by (simp add: reshape_def infer_shape_def mult.assoc)
  moreover from permute_02134_ok [of "?un\<lparr>shape := [a, c, b, d, e]\<rparr>" a c b d e]
  obtain r where "permute (?un\<lparr>shape := [a, c, b, d, e]\<rparr>) [0, 2, 1, 3, 4] = Inr r" "shape r = [a, b, c, d, e]"
    by auto
  ultimately show ?thesis
    using u by (simp add: batch_to_frames_def)
qed

lemma batch_to_frames_hole_ok:
  assumes "shape x = [a * c, b, d, e]" and "0 < a" "0 < c" "0 < d" "0 < e"
  shows "\<exists>r. batch_to_frames x ([Some a, Some c, None] @ map Some (drop 2 (shape x))) = Inr r \<and>
           shape r = [a, b, c, d, e]"
proof -
  let ?un = "x\<lparr>shape := 1 # shape x\<rparr>"
  have u: "unsqueeze0 x = Inr ?un"
    using assms by (simp add: unsqueeze0_def)
  have k: "a * c * d * e \<noteq> 0"
    using assms by simp
  have n: "a * c * b * d * e = (a * c * d * e) * b"
    by (simp add: ac_simps)
  have "infer_shape [Some a, Some c, None, Some d, Some e] (a * c * b * d * e) = Inr [a, c, b, d, e]"
    unfolding n using k by (simp add: infer_shape_def Let_def mult.assoc)
  then have "reshape ?un ([Some a, Some c, None] @ map Some (drop 2 (shape x))) = Inr (?un\<lparr>shape := [a, c, b, d, e]\<rparr>)"
    using assms(1) by (simp add: reshape_def mult.assoc)
  moreover from permute_02134_ok [of "?un\<lparr>shape := [a, c, b, d, e]\<rparr>" a c b d e]
  obtain r where "permute (?un\<lparr>shape := [a, c, b, d, e]\<rparr>) [0, 2, 1, 3, 4] = Inr r" "shape r = [a, b, c, d, e]"
    by auto
  ultimately show ?thesis
    using u by (simp add: batch_to_frames_def)
qed

text \<open>The step driver succeeds and keeps the shapes.\<close>

lemma sp_scale: "shape_preserving E \<Longrightarrow> \<exists>y. scale_model_input E x t = Inr y \<and> shape y = shape x"
  by (simp add: shape_preserving_def)

lemma sp_unet:
  "shape_preserving E \<Longrightarrow> procs_ok (modules u) \<Longrightarrow>
   \<exists>y u'. unet_forward E u x t e k = Inr (y, u') \<and> shape y = shape x \<and> procs_ok (modules u')"
  unfolding shape_preserving_def by metis

lemma sp_step: "shape_preserving E \<Longrightarrow> \<exists>y. scheduler_step E n t x = Inr y \<and> shape y = shape x"
  by (simp add: shape_preserving_def)

lemma unconditional_predictions_ok:
  assumes "shape_preserving E" and "procs_ok (modules u)"
  shows "\<exists>uncond u'. unconditional_predictions E u lat_in inv_in t neg cak cfg = Inr (uncond, u') \<and>
           uncond_fits uncond (shape lat_in) (shape inv_in) \<and> procs_ok (modules u')"
proof (cases cfg)
  case True
  from sp_unet [OF assms, of lat_in t neg cak] obtain x u1 where
    x: "unet_forward E u lat_in t neg cak = Inr (x, u1)" "shape x = shape lat_in" "procs_ok (modules u1)"
    by blast
  from sp_unet [OF assms(1) x(3), of inv_in t neg cak] obtain y u2 where
    y: "unet_forward E u1 inv_in t neg cak = Inr (y, u2)" "shape y = shape inv_in" "procs_ok (modules u2)"
    by blast
  from True x y show ?thesis
    by (simp add: unconditional_predictions_def uncond_fits_def)
next
  case False
  with assms show ?thesis
    by (simp add: unconditional_predictions_def uncond_fits_def)
qed

lemma inversion_branch_ok:
  assumes sp: "shape_preserving E" and ok: "procs_ok (modules u)"
    and s: "shape inv_latents = [a, b, c, d, e]" and pos: "0 < a" "0 < c" "0 < d" "0 < e"
    and si: "shape inv_in = shape inv_latents"
    and un: "uncond_fits uncond sl (shape inv_latents)"
  shows "\<exists>nnp inv' u'. inversion_branch E u inv_latents inv_in t ne cak uncond gs = Inr (nnp, inv', u') \<and>
           shape inv' = [a, b, c, e, d] \<and> procs_ok (modules u')"
proof -
  from toggle_save_ok [OF ok] obtain u1 where
    u1: "on_modules (\<lambda>ms. save_last_self_attention ms True) u = Inr u1" "procs_ok (modules u1)"
    by blast
  from sp_unet [OF sp u1(2), of inv_in t "Some ne" cak] si obtain n0 u2 where
    n0: "unet_forward E u1 inv_in t (Some ne) cak = Inr (n0, u2)" "shape n0 = shape inv_latents"
      "procs_ok (modules u2)"
    by auto
  have "\<exists>n1. (case uncond of Some (x, y) \<Rightarrow> guide y n0 gs | None \<Rightarrow> Inr n0) = Inr n1 \<and>
      shape n1 = shape inv_latents"
  proof (cases uncond)
    case None
    with n0 show ?thesis by simp
  next
    case (Some xy)
    obtain x y where xy: "xy = (x, y)" by (cases xy)
    with Some un have "shape y = shape n0"
      using n0 by (simp add: uncond_fits_def)
    from guide_ok [OF this, of gs] Some xy un show ?thesis
      by (auto simp: uncond_fits_def)
  qed
  then obtain n1 where n1: "(case uncond of Some (x, y) \<Rightarrow> guide y n0 gs | None \<Rightarrow> Inr n0) = Inr n1"
    "shape n1 = [a, b, c, d, e]"
    using s by auto
  have ed: "e * d = d * e"
    by simp
  from frames_to_batch_ok [OF s ed] obtain i4 where
    i4: "frames_to_batch inv_latents (a * c) b e d = Inr i4" "shape i4 = [a * c, b, e, d]"
    by blast
  from frames_to_batch_ok [OF n1(2) ed] obtain n4 where
    n4: "frames_to_batch n1 (a * c) b e d = Inr n4"
    by blast
  from sp_step [OF sp, of n4 t i4] i4 obtain prev where
    prev: "scheduler_step E n4 t i4 = Inr prev" "shape prev = [a * c, b, e, d]"
    by auto
  from batch_to_frames_hole_ok [OF prev(2) pos(1,2,4,3)] obtain inv' where
    inv': "batch_to_frames prev ([Some a, Some c, None] @ map Some (drop 2 (shape prev))) = Inr inv'"
      "shape inv' = [a, b, c, e, d]"
    by blast
  from toggle_use_ok [OF n0(3)] obtain u3 where
    u3: "on_modules (\<lambda>ms. use_last_self_attention ms True) u2 = Inr u3" "procs_ok (modules u3)"
    by blast
  from u1 n0 n1 i4 n4 prev inv' u3 s show ?thesis
    by (simp add: inversion_branch_def unpack5_def)
qed

lemma generation_branch_ok:
  assumes sp: "shape_preserving E" and ok: "procs_ok (modules u)"
    and s: "shape latents = [a, b, c, d, e]"
    and si: "shape lat_in = shape latents"
    and un: "uncond_fits uncond (shape latents) si'"
  shows "\<exists>l np u'. generation_branch E u latents lat_in t pe cak uncond gs = Inr (l, np, u') \<and>
           shape l = shape latents \<and> procs_ok (modules u')"
proof -
  from sp_unet [OF sp ok, of lat_in t "Some pe" cak] si obtain n0 u1 where
    n0: "unet_forward E u lat_in t (Some pe) cak = Inr (n0, u1)" "shape n0 = shape latents"
      "procs_ok (modules u1)"
    by auto
  from toggle_use_ok [OF n0(3)] obtain u2 where
    u2: "on_modules (\<lambda>ms. use_last_self_attention ms False) u1 = Inr u2" "procs_ok (modules u2)"
    by blast
  have "\<exists>n1. (case uncond of Some (x, y) \<Rightarrow> guide x n0 gs | None \<Rightarrow> Inr n0) = Inr n1 \<and>
      shape n1 = shape latents"
  proof (cases uncond)
    case None
    with n0 show ?thesis by simp
  next
    case (Some xy)
    obtain x y where xy: "xy = (x, y)" by (cases xy)
    with Some un have "shape x = shape n0"
      using n0 by (simp add: uncond_fits_def)
    from guide_ok [OF this, of gs] Some xy un show ?thesis
      by (auto simp: uncond_fits_def)
  qed
  then obtain n1 where n1: "(case uncond of Some (x, y) \<Rightarrow> guide x n0 gs | None \<Rightarrow> Inr n0) = Inr n1"
    "shape n1 = [a, b, c, d, e]"
    using s by auto
  from frames_to_batch_ok [OF s refl] obtain l4 where
    l4: "frames_to_batch latents (a * c) b d e = Inr l4" "shape l4 = [a * c, b, d, e]"
    by blast
  from frames_to_batch_ok [OF n1(2) refl] obtain n4 where
    n4: "frames_to_batch n1 (a * c) b d e = Inr n4"
    by blast
  from sp_step [OF sp, of n4 t l4] l4 obtain prev where
    prev: "scheduler_step E n4 t l4 = Inr prev" "shape prev = [a * c, b, d, e]"
    by auto
  from batch_to_frames_ok [OF prev(2)] obtain l where
    l: "batch_to_frames prev [Some a, Some c, Some b, Some d, Some e] = Inr l" "shape l = [a, b, c, d, e]"
    by blast
  from n0 u2 n1 l4 n4 prev l s show ?thesis
    by (simp add: generation_branch_def unpack5_def)
qed

lemma call_network_ok:
  assumes sp: "shape_preserving E" and ok: "procs_ok (modules u)"
    and sl: "shape latents = [a, b, c, d, e]"
    and si: "shape inv_latents = [a', b', c', d', e']" and pos: "0 < a'" "0 < c'" "0 < d'" "0 < e'"
  shows "\<exists>out u'. call_network E u neg pe latents inv_latents t i ne cak cfg gs = Inr (out, u') \<and>
           shape (out_latents out) = shape latents \<and>
           (\<exists>x y. shape (out_inv_latents out) = [a', b', c', x, y] \<and> 0 < x \<and> 0 < y) \<and>
           procs_ok (modules u')"
proof -
  from sp_scale [OF sp, of inv_latents t] obtain inv_in where
    ii: "scale_model_input E inv_latents t = Inr inv_in" "shape inv_in = shape inv_latents"
    by blast
  from sp_scale [OF sp, of latents t] obtain lat_in where
    li: "scale_model_input E latents t = Inr lat_in" "shape lat_in = shape latents"
    by blast
  from unconditional_predictions_ok [OF sp ok, of lat_in inv_in t neg cak cfg] ii li obtain uncond u1 where
    up: "unconditional_predictions E u lat_in inv_in t neg cak cfg = Inr (uncond, u1)"
      "uncond_fits uncond (shape latents) (shape inv_latents)" "procs_ok (modules u1)"
    by auto
  have "\<exists>nnp inv' u2. (if i \<le> TAU_2
            then inversion_branch E u1 inv_latents inv_in t ne cak uncond gs
            else Inr (None, inv_latents, u1)) = Inr (nnp, inv', u2) \<and>
         (\<exists>x y. shape inv' = [a', b', c', x, y] \<and> 0 < x \<and> 0 < y) \<and> procs_ok (modules u2)"
  proof (cases "i \<le> TAU_2")
    case True
    from inversion_branch_ok [OF sp up(3) si pos ii(2) up(2), of t ne cak gs] True show ?thesis
      using pos by auto
  next
    case False
    with si pos up(3) show ?thesis by simp
  qed
  then obtain nnp inv' u2 where
    ib: "(if i \<le> TAU_2
            then inversion_branch E u1 inv_latents inv_in t ne cak uncond gs
            else Inr (None, inv_latents, u1)) = Inr (nnp, inv', u2)"
      "\<exists>x y. shape inv' = [a', b', c', x, y] \<and> 0 < x \<and> 0 < y" "procs_ok (modules u2)"
    by blast
  from generation_branch_ok [OF sp ib(3) sl li(2) up(2), of t pe cak gs] obtain l np u3 where
    gb: "generation_branch E u2 latents lat_in t pe cak uncond gs = Inr (l, np, u3)"
      "shape l = shape latents" "procs_ok (modules u3)"
    by blast
  from ii li up ib gb show ?thesis
    by (simp add: call_network_def)
qed

text \<open>The loop and the seeding succeed.\<close>

lemma loop_body_ok:
  assumes sp: "shape_preserving E" and ok: "procs_ok (modules u)"
    and sl: "shape latents = [a, b, c, d, e]"
    and si: "shape inv_latents = [a', b', c', d', e']" and pos: "0 < a'" "0 < d'" "0 < e'"
    and le: "max 1 (frames_arg ar - i) \<le> c'"
    and cb: "callback ar = None" and ord: "0 < scheduler_order E"
  shows "\<exists>l' inv' u'. loop_body E ar p i t (latents, inv_latents, u) = Inr (l', inv', u') \<and>
           shape l' = shape latents \<and>
           (\<exists>x y. shape inv' = [a', b', max 1 (frames_arg ar - i), x, y] \<and> 0 < x \<and> 0 < y) \<and>
           procs_ok (modules u')"
proof -
  from shrink_window_shape [OF si le] obtain w where
    w: "shrink_window (frames_arg ar) i inv_latents = Inr w"
      "shape w = [a', b', max 1 (frames_arg ar - i), d', e']"
    by blast
  have m: "0 < max 1 (frames_arg ar - i)"
    by simp
  from call_network_ok [OF sp ok sl w(2) pos(1) m pos(2,3),
      of "p_negative_prompt_embeds p" "p_prompt_embeds p" t i "p_null_embeds p"
         "cross_attention_kwargs ar" "p_do_cfg p" "guidance_scale_arg ar"]
  obtain out u' where
    c: "call_network E u (p_negative_prompt_embeds p) (p_prompt_embeds p) latents w t i (p_null_embeds p)
          (cross_attention_kwargs ar) (p_do_cfg p) (guidance_scale_arg ar) = Inr (out, u')"
      "shape (out_latents out) = shape latents"
      "\<exists>x y. shape (out_inv_latents out) = [a', b', max 1 (frames_arg ar - i), x, y] \<and> 0 < x \<and> 0 < y"
      "procs_ok (modules u')"
    by blast
  from w c cb ord show ?thesis
    by (simp add: loop_body_def not_altered Let_def)
qed

lemma denoise_loop_ok:
  assumes sp: "shape_preserving E" and cb: "callback ar = None" and ord: "0 < scheduler_order E"
  shows "procs_ok (modules u) \<Longrightarrow> shape latents = [a, b, c, d, e] \<Longrightarrow>
     shape inv_latents = [a', b', c', d', e'] \<Longrightarrow> 0 < a' \<Longrightarrow> 0 < d' \<Longrightarrow> 0 < e' \<Longrightarrow>
     max 1 (frames_arg ar - i) \<le> c' \<Longrightarrow>
     \<exists>s. denoise_loop E ar p i ts (latents, inv_latents, u) = Inr s"
proof (induction ts arbitrary: i latents inv_latents u b' c' d' e')
  case Nil
  then show ?case by simp
next
  case (Cons t ts)
  from loop_body_ok [OF sp Cons.prems(1,2,3,4,5,6,7) cb ord, of p t]
  obtain l' inv' u' x y where
    b: "loop_body E ar p i t (latents, inv_latents, u) = Inr (l', inv', u')"
    and l: "shape l' = [a, b, c, d, e]"
    and i: "shape inv' = [a', b', max 1 (frames_arg ar - i), x, y]" "0 < x" "0 < y"
    and u: "procs_ok (modules u')"
    using Cons.prems(2) by auto
  have "max 1 (frames_arg ar - Suc i) \<le> max 1 (frames_arg ar - i)"
    by simp
  from Cons.IH [OF u l i(1) Cons.prems(4) i(2,3) this] b show ?case
    by simp
qed

lemma index_shape_frame_at:
  "k < c \<Longrightarrow> index_shape (frame_at k) [a, b, c, d, e] = Inr [a, b, d, e]"
  by (simp add: frame_at_def slice_start_def slice_stop_def)

lemma seed_latents_ok:
  assumes sl: "shape latents = [B, C, F, H, W]" and f: "0 < F"
    and si: "shape inv_latents = [B, C, 1, H, W]"
  shows "\<exists>lat0 inv0. seed_latents F latents inv_latents = Inr (lat0, inv0) \<and>
           shape lat0 = [B, C, F, H, W] \<and> shape inv0 = [B, C, F, H, W]"
proof -
  obtain mask where mask: "setitem (zeros (shape latents)) (frame_at 0) (scalar 1) = Inr mask"
    "shape mask = [B, C, F, H, W]"
    using sl f by (simp add: setitem_def zeros_def index_shape_frame_at scalar_def expandable_def)
  obtain inv0 where inv0: "repeat_tensor inv_latents [1, 1, F, 1, 1] = Inr inv0" "shape inv0 = [B, C, F, H, W]"
    using si by (simp add: repeat_tensor_def Let_def)
  from binop_same [of inv0 mask "(*)"] inv0 mask obtain x where
    x: "binop (*) inv0 mask = Inr x" "shape x = [B, C, F, H, W]"
    by auto
  from binop_scalar [of "(-)" 1 mask] mask obtain om where
    om: "binop (-) (scalar 1) mask = Inr om" "shape om = [B, C, F, H, W]"
    by auto
  from binop_same [of latents om "(*)"] sl om obtain y where
    y: "binop (*) latents om = Inr y" "shape y = [B, C, F, H, W]"
    by auto
  from binop_same [of x y "(+)"] x y obtain lat0 where
    l: "binop (+) x y = Inr lat0" "shape lat0 = [B, C, F, H, W]"
    by auto
  from mask inv0 x om y l sl si show ?thesis
    by (simp add: seed_latents_def shape_at_def)
qed

text \<open>The call is prepared, and then runs.\<close>

lemma prepare_call_ok:
  assumes ci: "check_inputs E (prompt a) (call_height E a) (call_width E a) (callback_steps a)
        (negative_prompt a) (prompt_embeds_arg a) (negative_prompt_embeds_arg a) = None"
    and iv: "inv_latents_arg a = Some iv" "shape iv = B # rest"
    and enc: "\<forall>ps cfg nps pe npe lora cs. \<exists>r. encode_prompt E ps cfg nps pe npe lora cs = Inr r"
    and ts: "set_timesteps E (num_inference_steps a) = Inr ts"
    and pl: "prepare_latents E B (in_channels E) (frames_arg a) (call_height E a) (call_width E a) (latents_arg a) = Inr L"
    and pi: "prepare_latents E B (in_channels E) (frames_arg a) (call_height E a) (call_width E a) (Some iv) = Inr IL"
    and l3: "2 < length (shape L)"
  shows "\<exists>p. prepare_call E u a = Inr p \<and> p_latents p = L \<and> p_inv_latents p = IL \<and>
           p_timesteps p = ts \<and> procs_ok (modules (p_unet p))"
proof -
  let ?neg = "case negative_prompt a of None \<Rightarrow> None | Some n \<Rightarrow> Some (replicate B (Some n))"
  let ?lora = "case cross_attention_kwargs a of None \<Rightarrow> None | Some d \<Rightarrow> d ''scale''"
  from enc obtain pe ne where
    e1: "encode_prompt E (replicate B (prompt a)) (1 < guidance_scale_arg a) ?neg
           (prompt_embeds_arg a) (negative_prompt_embeds_arg a) ?lora (clip_skip a) = Inr (pe, ne)"
    by (metis surj_pair)
  from enc obtain nu ne2 where
    e2: "encode_prompt E (replicate B (Some [])) (1 < guidance_scale_arg a) ?neg
           None ne ?lora (clip_skip a) = Inr (nu, ne2)"
    by (metis surj_pair)
  let ?u = "u\<lparr>modules := init_attention_func (modules u)\<rparr>"
  have "procs_ok (modules ?u)"
    by (simp add: init_func_ok)
  from init_params_ok [OF this, of "Some (shape L ! 2)" "lambda_arg a" "Some B"] obtain u' where
    u': "on_modules (\<lambda>ms. init_attention_params ms (Some (shape L ! 2)) (lambda_arg a) (Some B)) ?u = Inr u'"
      "procs_ok (modules u')"
    by blast
  from ci iv e1 e2 ts pl pi l3 u' show ?thesis
    by (simp add: prepare_call_def raise_if_def shape_at_def Let_def)
qed

lemma pipeline_runs:
  assumes ci: "check_inputs E (prompt a) (call_height E a) (call_width E a) (callback_steps a)
        (negative_prompt a) (prompt_embeds_arg a) (negative_prompt_embeds_arg a) = None"
    and iv: "inv_latents_arg a = Some iv" "shape iv = [B, C, 1, H, W]"
    and pos: "0 < B" "0 < H" "0 < W" "1 \<le> frames_arg a"
    and cb: "callback a = None" and ord: "0 < scheduler_order E"
    and enc: "\<forall>ps cfg nps pe npe lora cs. \<exists>r. encode_prompt E ps cfg nps pe npe lora cs = Inr r"
    and ts: "set_timesteps E (num_inference_steps a) = Inr ts"
    and pl: "prepare_latents E B (in_channels E) (frames_arg a) (call_height E a) (call_width E a) (latents_arg a) = Inr L"
      "shape L = [B, C, frames_arg a, H, W]"
    and pi: "prepare_latents E B (in_channels E) (frames_arg a) (call_height E a) (call_width E a) (Some iv) = Inr IL"
      "shape IL = shape iv"
    and sp: "shape_preserving E"
  shows "\<exists>p lat0 inv0 s. prepare_call E u a = Inr p \<and> p_latents p = L \<and> p_timesteps p = ts \<and>
           seed_latents (frames_arg a) L IL = Inr (lat0, inv0) \<and>
           denoise_loop E a p 0 ts (lat0, inv0, p_unet p) = Inr s"
proof -
  have l3: "2 < length (shape L)"
    using pl(2) by simp
  from prepare_call_ok [OF ci iv(1) iv(2) enc ts pl(1) pi(1) l3, of u] obtain p where
    p: "prepare_call E u a = Inr p" "p_latents p = L" "p_inv_latents p = IL" "p_timesteps p = ts"
      "procs_ok (modules (p_unet p))"
    by blast
  have f: "0 < frames_arg a"
    using pos(4) by simp
  have si: "shape IL = [B, C, 1, H, W]"
    using pi(2) iv(2) by simp
  from seed_latents_ok [OF pl(2) f si] obtain lat0 inv0 where
    s: "seed_latents (frames_arg a) L IL = Inr (lat0, inv0)"
      "shape lat0 = [B, C, frames_arg a, H, W]" "shape inv0 = [B, C, frames_arg a, H, W]"
    by blast
  have "max 1 (frames_arg a - 0) \<le> frames_arg a"
    using pos(4) by simp
  from denoise_loop_ok [OF sp cb ord p(5) s(2) s(3) pos(1,2,3) this, of p ts] obtain st where
    "denoise_loop E a p 0 ts (lat0, inv0, p_unet p) = Inr st"
    by blast
  with p s show ?thesis
    by blast
qed

lemma pipeline_without_inv_latents:
  "inv_latents_arg a = None \<Longrightarrow>
   pipeline_call E u a =
     Inl (case check_inputs E (prompt a) (call_height E a) (call_width E a) (callback_steps a)
               (negative_prompt a) (prompt_embeds_arg a) (negative_prompt_embeds_arg a) of
            Some e \<Rightarrow> e | None \<Rightarrow> AttributeError)"
  by (simp add: pipeline_call_def prepare_call_def raise_if_def Let_def split: option.splits)

text \<open>
  Claim C8 fails as stated: with neither buffer supplied, the stub call raises.
\<close>

theorem call_without_latents_raises:
  "pipeline_call stub stub_unet missing_args = Inl AttributeError"
  by code_simp

text \<open>
  Claim C8, amended. The inversion latents must be supplied: the batch size is read from
  them right after the input check, so a call without them raises, before any latent is
  prepared. The generation latents may be omitted: \<open>prepare_latents\<close> then draws them,
  and with collaborators that return and keep shapes, inversion latents of one frame that
  fit the drawn latents, at least one frame, a scheduler of positive order and no
  callback, the call is prepared, seeded and runs through every round of the loop.
\<close>

theorem call_with_generation_latents_omitted:
  "(inv_latents_arg a = None \<longrightarrow>
      pipeline_call E u a =
        Inl (case check_inputs E (prompt a) (call_height E a) (call_width E a) (callback_steps a)
                  (negative_prompt a) (prompt_embeds_arg a) (negative_prompt_embeds_arg a) of
               Some e \<Rightarrow> e | None \<Rightarrow> AttributeError)) \<and>
   (latents_arg a = None \<and> inv_latents_arg a = Some iv \<and> shape iv = [B, C, 1, H, W] \<and>
    0 < B \<and> 0 < H \<and> 0 < W \<and> 1 \<le> frames_arg a \<and> callback a = None \<and>
    0 < scheduler_order E \<and>
    check_inputs E (prompt a) (call_height E a) (call_width E a) (callback_steps a)
        (negative_prompt a) (prompt_embeds_arg a) (negative_prompt_embeds_arg a) = None \<and>
    (\<forall>ps cfg nps pe npe lora cs. \<exists>r. encode_prompt E ps cfg nps pe npe lora cs = Inr r) \<and>
    set_timesteps E (num_inference_steps a) = Inr ts \<and>
    prepare_latents E B (in_channels E) (frames_arg a) (call_height E a) (call_width E a) None = Inr L \<and>
    shape L = [B, C, frames_arg a, H, W] \<and>
    prepare_latents E B (in_channels E) (frames_arg a) (call_height E a) (call_width E a) (Some iv) = Inr IL \<and>
    shape IL = shape iv \<and> shape_preserving E \<longrightarrow>
      (\<exists>p lat0 inv0 s. prepare_call E u a = Inr p \<and> p_latents p = L \<and> p_timesteps p = ts \<and>
           seed_latents (frames_arg a) L IL = Inr (lat0, inv0) \<and>
           denoise_loop E a p 0 ts (lat0, inv0, p_unet p) = Inr s))"
proof (rule conjI; rule impI)
  assume "inv_latents_arg a = None"
  then show "pipeline_call E u a =
        Inl (case check_inputs E (prompt a) (call_height E a) (call_width E a) (callback_steps a)
                  (negative_prompt a) (prompt_embeds_arg a) (negative_prompt_embeds_arg a) of
               Some e \<Rightarrow> e | None \<Rightarrow> AttributeError)"
    by (rule pipeline_without_inv_latents)
next
  assume h: "latents_arg a = None \<and> inv_latents_arg a = Some iv \<and> shape iv = [B, C, 1, H, W] \<and>
    0 < B \<and> 0 < H \<and> 0 < W \<and> 1 \<le> frames_arg a \<and> callback a = None \<and>
    0 < scheduler_order E \<and>
    check_inputs E (prompt a) (call_height E a) (call_width E a) (callback_steps a)
        (negative_prompt a) (prompt_embeds_arg a) (negative_prompt_embeds_arg a) = None \<and>
    (\<forall>ps cfg nps pe npe lora cs. \<exists>r. encode_prompt E ps cfg nps pe npe lora cs = Inr r) \<and>
    set_timesteps E (num_inference_steps a) = Inr ts \<and>
    prepare_latents E B (in_channels E) (frames_arg a) (call_height E a) (call_width E a) None = Inr L \<and>
    shape L = [B, C, frames_arg a, H, W] \<and>
    prepare_latents E B (in_channels E) (frames_arg a) (call_height E a) (call_width E a) (Some iv) = Inr IL \<and>
    shape IL = shape iv \<and> shape_preserving E"
  then have pl: "prepare_latents E B (in_channels E) (frames_arg a) (call_height E a) (call_width E a)
      (latents_arg a) = Inr L"
    by simp
  from h show "\<exists>p lat0 inv0 s. prepare_call E u a = Inr p \<and> p_latents p = L \<and> p_timesteps p = ts \<and>
           seed_latents (frames_arg a) L IL = Inr (lat0, inv0) \<and>
           denoise_loop E a p 0 ts (lat0, inv0, p_unet p) = Inr s"
    by (intro pipeline_runs [where iv = iv and B = B and C = C and H = H and W = W] pl) simp_all
qed

lemma stub_shape_preserving: "shape_preserving stub"
  by (simp add: shape_preserving_def stub_def zeros_def)

theorem call_with_generation_latents_omitted_witness:
  "latents_arg stub_args = None \<and> inv_latents_arg missing_args = None \<and>
   pipeline_call stub stub_unet missing_args = Inl AttributeError \<and>
   (\<exists>p lat0 inv0 s. prepare_call stub stub_unet stub_args = Inr p \<and>
        p_latents p = tab [1, 1, 3, 2, 2] (\<lambda>_. 1) \<and> p_timesteps p = [3, 2, 1, 0] \<and>
        seed_latents (frames_arg stub_args) (tab [1, 1, 3, 2, 2] (\<lambda>_. 1))
          \<lparr>shape = [1, 1, 1, 2, 2], vals = [5, 6, 7, 8]\<rparr> = Inr (lat0, inv0) \<and>
        denoise_loop stub stub_args p 0 [3, 2, 1, 0] (lat0, inv0, p_unet p) = Inr s)"
proof -
  let ?iv = "\<lparr>shape = [1, 1, 1, 2, 2], vals = [5, 6, 7, 8 :: real]\<rparr>"
  let ?L = "tab [1, 1, 3, 2, 2] (\<lambda>_. 1 :: real)"
  have m: "inv_latents_arg missing_args = None"
    by (simp add: missing_args_def)
  have c: "check_inputs stub (prompt missing_args) (call_height stub missing_args) (call_width stub missing_args)
      (callback_steps missing_args) (negative_prompt missing_args) (prompt_embeds_arg missing_args)
      (negative_prompt_embeds_arg missing_args) = None"
    by (simp add: stub_def)
  from call_with_generation_latents_omitted [of missing_args stub stub_unet] m c
  have first: "pipeline_call stub stub_unet missing_args = Inl AttributeError"
    by simp
  have h1: "latents_arg stub_args = None" "inv_latents_arg stub_args = Some ?iv"
    "1 \<le> frames_arg stub_args" "callback stub_args = None"
    by (simp_all add: stub_args_def)
  have h2: "check_inputs stub (prompt stub_args) (call_height stub stub_args) (call_width stub stub_args)
        (callback_steps stub_args) (negative_prompt stub_args) (prompt_embeds_arg stub_args)
        (negative_prompt_embeds_arg stub_args) = None"
    "\<forall>ps cfg nps pe npe lora cs. \<exists>r. encode_prompt stub ps cfg nps pe npe lora cs = Inr r"
    by (simp_all add: stub_def)
  have h3: "set_timesteps stub (num_inference_steps stub_args) = Inr [3, 2, 1, 0]"
    "0 < scheduler_order stub"
    by code_simp+
  have h4: "prepare_latents stub 1 (in_channels stub) (frames_arg stub_args) (call_height stub stub_args)
        (call_width stub stub_args) None = Inr ?L"
    by code_simp
  have h5: "shape ?L = [1, 1, frames_arg stub_args, 2, 2]"
    by (simp add: stub_args_def)
  have h6: "prepare_latents stub 1 (in_channels stub) (frames_arg stub_args) (call_height stub stub_args)
        (call_width stub stub_args) (Some ?iv) = Inr ?iv"
    by (simp add: stub_def)
  from h1 h2 h3 h4 h5 h6 stub_shape_preserving
  have hyp: "latents_arg stub_args = None \<and> inv_latents_arg stub_args = Some ?iv \<and>
    shape ?iv = [1, 1, 1, 2, 2] \<and> (0::nat) < 1 \<and> (0::nat) < 2 \<and> (0::nat) < 2 \<and>
    1 \<le> frames_arg stub_args \<and> callback stub_args = None \<and>
    0 < scheduler_order stub \<and>
    check_inputs stub (prompt stub_args) (call_height stub stub_args) (call_width stub stub_args)
        (callback_steps stub_args) (negative_prompt stub_args) (prompt_embeds_arg stub_args)
        (negative_prompt_embeds_arg stub_args) = None \<and>
    (\<forall>ps cfg nps pe npe lora cs. \<exists>r. encode_prompt stub ps cfg nps pe npe lora cs = Inr r) \<and>
    set_timesteps stub (num_inference_steps stub_args) = Inr [3, 2, 1, 0] \<and>
    prepare_latents stub 1 (in_channels stub) (frames_arg stub_args) (call_height stub stub_args)
        (call_width stub stub_args) None = Inr ?L \<and>
    shape ?L = [1, 1, frames_arg stub_args, 2, 2] \<and>
    prepare_latents stub 1 (in_channels stub) (frames_arg stub_args) (call_height stub stub_args)
        (call_width stub stub_args) (Some ?iv) = Inr ?iv \<and>
    shape ?iv = shape ?iv \<and> shape_preserving stub"
    by simp
  from call_with_generation_latents_omitted [of stub_args stub stub_unet ?iv 1 1 2 2 "[3, 2, 1, 0]" ?L ?iv] hyp
  have second: "\<exists>p lat0 inv0 s. prepare_call stub stub_unet stub_args = Inr p \<and>
        p_latents p = ?L \<and> p_timesteps p = [3, 2, 1, 0] \<and>
        seed_latents (frames_arg stub_args) ?L ?iv = Inr (lat0, inv0) \<and>
        denoise_loop stub stub_args p 0 [3, 2, 1, 0] (lat0, inv0, p_unet p) = Inr s"
    by blast
  have "latents_arg stub_args = None"
    by (simp add: stub_args_def)
  with m first second show ?thesis
    by blast
qed

end
